theory Spec2Isabelle
  imports Main
begin

section \<open>Data model\<close>

text \<open>
  The service keeps three in-memory tables, \<^verbatim>\<open>users_data\<close>, \<^verbatim>\<open>books_data\<close> and
  \<^verbatim>\<open>borrowing_records_data\<close>, each a Python list of dictionaries with a fixed set of keys.
  A dictionary with fixed keys is a record here, a table is a list of records (the order
  matters: every lookup of the source takes the first match).

  The source stores identifiers and copy counts as decimal strings (\<^verbatim>\<open>str(n)\<close>) and reads
  them back with \<^verbatim>\<open>int\<close>; route parameters are non-negative integers rendered by
  \<^verbatim>\<open>str\<close>. Comparing two such strings is comparing the numbers, so identifiers are
  \<open>nat\<close> and copy counts are \<open>int\<close> (nothing in the source keeps a count from going
  negative, so it is not \<open>nat\<close>). A timestamp field holds either the empty string or
  \<^verbatim>\<open>isoformat()\<close> of an instant, which is never empty: it is a \<open>datetime option\<close>.
  Status, role, messages and the other text fields stay strings. The key \<^verbatim>\<open>id\<close> of the
  three tables is \<open>u_id\<close>, \<open>b_id\<close> and \<open>r_id\<close>, since HOL has an \<open>id\<close> of its own.

  Request bodies are typed: a field that the source converts with \<^verbatim>\<open>int\<close> carries an
  integer here, so the exception that \<^verbatim>\<open>int\<close> raises on other JSON values has no
  counterpart in the model.
\<close>

record datetime =
  ordinal :: int
  hour :: nat
  minute :: nat
  second :: nat
  microsecond :: nat

record user =
  u_id :: nat
  username :: string
  password_hash :: string
  role :: string
  token :: string

record book =
  b_id :: nat
  title :: string
  author :: string
  isbn :: string
  publication_year :: "int option"
  available_copies :: int
  total_copies :: int

record borrowing_record =
  r_id :: nat
  student_id :: nat
  book_id :: nat
  borrow_date :: "datetime option"
  due_date :: "datetime option"
  return_date :: "datetime option"
  status :: string

record state =
  users_data :: "user list"
  books_data :: "book list"
  borrowing_records_data :: "borrowing_record list"

definition init_state :: state where
  "init_state = \<lparr>users_data = [], books_data = [], borrowing_records_data = []\<rparr>"

datatype payload =
    NoPayload
  | RecordPayload borrowing_record
  | BookPayload book
  | UserPayload nat "string option" "string option"

datatype response = Response (message: string) (code: nat) (payload: payload)

section \<open>Helpers\<close>

text \<open>
  \<^verbatim>\<open>x = next((e for e in table if P(e)), None)\<close> is \<^const>\<open>find\<close>. The source then assigns
  to keys of \<^verbatim>\<open>x\<close>, which is the dictionary inside the table: the table changes at the
  position of the first match. \<open>update_first\<close> is that in-place change, \<open>remove_first\<close>
  is \<^verbatim>\<open>del table[index]\<close> at the index of the first match.
\<close>

fun update_first :: "('a \<Rightarrow> bool) \<Rightarrow> ('a \<Rightarrow> 'a) \<Rightarrow> 'a list \<Rightarrow> 'a list" where
  "update_first P f [] = []"
| "update_first P f (x # xs) = (if P x then f x # xs else x # update_first P f xs)"

fun remove_first :: "('a \<Rightarrow> bool) \<Rightarrow> 'a list \<Rightarrow> 'a list" where
  "remove_first P [] = []"
| "remove_first P (x # xs) = (if P x then xs else x # remove_first P xs)"

text \<open>\<^verbatim>\<open>_get_next_id\<close>, on the column of identifiers of a table.\<close>

definition get_next_id :: "nat list \<Rightarrow> nat" where
  "get_next_id ids = (if ids = [] then 1 else Max (set ids) + 1)"

definition non_terminal :: "borrowing_record \<Rightarrow> bool" where
  "non_terminal rec = (status rec \<in> set [''borrowed'', ''reserved''])"

section \<open>Due dates\<close>

text \<open>
  An instant is its proleptic Gregorian day number (\<^verbatim>\<open>toordinal()\<close>) and its time of day.
  Day 1 is a Monday and \<^verbatim>\<open>weekday()\<close> is 0 on Mondays, so the weekday of day \<open>n\<close> is
  \<open>(n + 6) mod 7\<close>. Adding \<^verbatim>\<open>timedelta(days=1)\<close> moves the day number and keeps the time of
  day. Day numbers are unbounded integers here; the library's upper limit of year 9999 is
  not part of the model.
\<close>

definition weekday :: "datetime \<Rightarrow> int" where
  "weekday d = (ordinal d + 6) mod 7"

definition add_days :: "datetime \<Rightarrow> int \<Rightarrow> datetime" where
  "add_days d k = d\<lparr>ordinal := ordinal d + k\<rparr>"

definition is_working_day :: "datetime \<Rightarrow> bool" where
  "is_working_day date = (weekday date < 5)"

text \<open>
  The \<^verbatim>\<open>for\<close> loop of \<^verbatim>\<open>calculate_due_date\<close>: the first argument is the number of
  iterations left, \<^verbatim>\<open>break\<close> is the branch that returns early.
\<close>

fun due_date_loop :: "nat \<Rightarrow> int \<Rightarrow> datetime \<Rightarrow> int \<Rightarrow> datetime" where
  "due_date_loop 0 max_weeks current_date working_days_count = current_date"
| "due_date_loop (Suc n) max_weeks current_date working_days_count =
     (let current_date' = add_days current_date 1;
          working_days_count' =
            (if is_working_day current_date' then working_days_count + 1
             else working_days_count)
      in if working_days_count' \<ge> max_weeks * 5 then current_date'
         else due_date_loop n max_weeks current_date' working_days_count')"

definition calculate_due_date :: "datetime \<Rightarrow> int \<Rightarrow> datetime" where
  "calculate_due_date borrow_instant max_weeks =
     (let max_calendar_days = max_weeks * 7
      in (due_date_loop (nat (max_calendar_days + 7)) max_weeks borrow_instant 0)
           \<lparr>hour := 23, minute := 59, second := 59, microsecond := 999999\<rparr>)"

section \<open>Access control\<close>

text \<open>
  The two request headers the decorators read. \<^verbatim>\<open>X-User-ID\<close> is compared with
  \<^verbatim>\<open>str(u['id'])\<close>: a header that is not the decimal form of a number matches no user,
  exactly as a number that no user has, so the header is a \<open>nat option\<close> (\<open>None\<close> when
  absent or empty). \<^verbatim>\<open>X-Auth-Token\<close> is a string, empty when absent.
\<close>

record headers =
  x_user_id :: "nat option"
  x_auth_token :: string

definition login_required :: "state \<Rightarrow> headers \<Rightarrow> response + user" where
  "login_required s h =
     (let found =
            (case x_user_id h of
               Some n \<Rightarrow> find (\<lambda>u. u_id u = n) (users_data s)
             | None \<Rightarrow>
                 if x_auth_token h \<noteq> [] then find (\<lambda>u. token u = x_auth_token h) (users_data s)
                 else None)
      in case found of
           None \<Rightarrow> Inl (Response ''Authentication required or invalid credentials'' 401 NoPayload)
         | Some u \<Rightarrow> Inr u)"

definition role_required :: "string \<Rightarrow> state \<Rightarrow> headers \<Rightarrow> response + user" where
  "role_required r s h =
     (case login_required s h of
        Inl e \<Rightarrow> Inl e
      | Inr u \<Rightarrow>
          if role u \<noteq> r then Inl (Response (''Access denied: '' @ r @ '' role required'') 403 NoPayload)
          else Inr u)"

section \<open>Endpoints\<close>

text \<open>
  Every endpoint takes the request (headers, route parameter, body fields, and the values
  the source draws from outside: clock readings, the fresh token, the salted hash) and the
  state, and returns the response with the state it leaves in memory. An early
  \<^verbatim>\<open>return jsonify(...)\<close> is a branch that returns at once.
\<close>

definition quoted :: "string \<Rightarrow> string" where
  "quoted w = [CHR 0x27] @ w @ [CHR 0x27]"

definition register_user ::
  "string \<Rightarrow> string \<Rightarrow> string \<Rightarrow> string \<Rightarrow> string \<Rightarrow> state \<Rightarrow> response \<times> state" where
  "register_user uname password rl new_hash new_token s =
     (if uname = [] \<or> password = [] \<or> rl = [] then
        (Response ''Missing username, password, or role'' 400 NoPayload, s)
      else if rl \<notin> set [''student'', ''librarian''] then
        (Response (''Invalid role. Must be '' @ quoted ''student'' @ '' or '' @ quoted ''librarian'')
           400 NoPayload, s)
      else
        let existing_user = find (\<lambda>u. username u = uname) (users_data s) in
        if rl = ''student'' then
          (case existing_user of
             Some eu \<Rightarrow>
               if token eu \<noteq> [] then
                 (Response ''Student already registered'' 200
                    (UserPayload (u_id eu) (Some (role eu)) (Some (token eu))), s)
               else
                 (Response ''Student already registered, token generated'' 200
                    (UserPayload (u_id eu) (Some (role eu)) (Some new_token)),
                  s\<lparr>users_data :=
                      update_first (\<lambda>u. username u = uname) (\<lambda>u. u\<lparr>token := new_token\<rparr>)
                        (users_data s)\<rparr>)
           | None \<Rightarrow>
               let new_user = \<lparr>u_id = get_next_id (map u_id (users_data s)), username = uname,
                                password_hash = new_hash, role = rl, token = new_token\<rparr>
               in (Response ''Student registered successfully'' 201
                     (UserPayload (u_id new_user) None (Some (token new_user))),
                   s\<lparr>users_data := users_data s @ [new_user]\<rparr>))
        else
          (case existing_user of
             Some eu \<Rightarrow> (Response ''Librarian already registered'' 409 NoPayload, s)
           | None \<Rightarrow>
               let new_user = \<lparr>u_id = get_next_id (map u_id (users_data s)), username = uname,
                                password_hash = new_hash, role = rl, token = []\<rparr>
               in (Response ''Librarian registered successfully'' 201
                     (UserPayload (u_id new_user) None None),
                   s\<lparr>users_data := users_data s @ [new_user]\<rparr>)))"

text \<open>
  \<^verbatim>\<open>add_book\<close>. A missing \<^verbatim>\<open>total_copies\<close> defaults to 0; a publication year that is
  missing or zero is stored as the empty string.
\<close>

definition stored_year :: "int option \<Rightarrow> int option" where
  "stored_year y = (case y of None \<Rightarrow> None | Some v \<Rightarrow> if v \<noteq> 0 then Some v else None)"

definition add_book ::
  "headers \<Rightarrow> string \<Rightarrow> string \<Rightarrow> string \<Rightarrow> int option \<Rightarrow> int option \<Rightarrow> state
     \<Rightarrow> response \<times> state" where
  "add_book h ttl auth isbn_in year total_in s =
     (case role_required ''librarian'' s h of
        Inl e \<Rightarrow> (e, s)
      | Inr current_user \<Rightarrow>
          let total = (case total_in of None \<Rightarrow> 0 | Some n \<Rightarrow> n) in
          if ttl = [] \<or> auth = [] \<or> isbn_in = [] then
            (Response ''Missing required book details (title, author, isbn)'' 400 NoPayload, s)
          else if \<exists>b \<in> set (books_data s). isbn b = isbn_in then
            (Response ''Book with this ISBN already exists'' 409 NoPayload, s)
          else
            let new_book = \<lparr>b_id = get_next_id (map b_id (books_data s)), title = ttl,
                             author = auth, isbn = isbn_in, publication_year = stored_year year,
                             available_copies = total, total_copies = total\<rparr>
            in (Response ''Book added successfully'' 201 (BookPayload new_book),
                s\<lparr>books_data := books_data s @ [new_book]\<rparr>))"

text \<open>
  The body of \<^verbatim>\<open>update_book\<close>: each field is \<open>None\<close> when its key is absent from the
  JSON object. The source writes each field into the book as it goes, so a later early
  return leaves the earlier fields changed in memory.
\<close>

record book_update =
  upd_title :: "string option"
  upd_author :: "string option"
  upd_isbn :: "string option"
  upd_publication_year :: "int option option"
  upd_total_copies :: "int option"

definition update_book :: "headers \<Rightarrow> nat \<Rightarrow> book_update \<Rightarrow> state \<Rightarrow> response \<times> state" where
  "update_book h bid d s =
     (case role_required ''librarian'' s h of
        Inl e \<Rightarrow> (e, s)
      | Inr current_user \<Rightarrow>
          (case find (\<lambda>b. b_id b = bid) (books_data s) of
             None \<Rightarrow> (Response ''Book not found'' 404 NoPayload, s)
           | Some book0 \<Rightarrow>
               let store = (\<lambda>b. s\<lparr>books_data :=
                                    update_first (\<lambda>x. b_id x = bid) (\<lambda>_. b) (books_data s)\<rparr>);
                   book1 = (case upd_title d of None \<Rightarrow> book0 | Some t \<Rightarrow> book0\<lparr>title := t\<rparr>);
                   book2 = (case upd_author d of None \<Rightarrow> book1 | Some a \<Rightarrow> book1\<lparr>author := a\<rparr>)
               in if (case upd_isbn d of
                        None \<Rightarrow> False
                      | Some i \<Rightarrow> i \<noteq> isbn book2 \<and>
                          (\<exists>b \<in> set (books_data (store book2)). b_id b \<noteq> bid \<and> isbn b = i))
                  then (Response ''Book with this ISBN already exists'' 409 NoPayload, store book2)
                  else
                    let book3 = (case upd_isbn d of None \<Rightarrow> book2 | Some i \<Rightarrow> book2\<lparr>isbn := i\<rparr>);
                        book4 = (case upd_publication_year d of
                                   None \<Rightarrow> book3
                                 | Some y \<Rightarrow> book3\<lparr>publication_year := stored_year y\<rparr>)
                    in (case upd_total_copies d of
                          None \<Rightarrow>
                            (Response ''Book updated successfully'' 200 (BookPayload book4),
                             store book4)
                        | Some new_total_copies \<Rightarrow>
                            let current_borrowed = total_copies book4 - available_copies book4 in
                            if new_total_copies < current_borrowed then
                              (Response ''Cannot reduce total copies below currently borrowed copies''
                                 400 NoPayload, store book4)
                            else
                              let book5 = book4\<lparr>available_copies :=
                                             available_copies book4
                                               + (new_total_copies - total_copies book4)\<rparr>;
                                  book6 = book5\<lparr>total_copies := new_total_copies\<rparr>
                              in (Response ''Book updated successfully'' 200 (BookPayload book6),
                                  store book6))))"

definition delete_book :: "headers \<Rightarrow> nat \<Rightarrow> state \<Rightarrow> response \<times> state" where
  "delete_book h bid s =
     (case role_required ''librarian'' s h of
        Inl e \<Rightarrow> (e, s)
      | Inr current_user \<Rightarrow>
          (case find (\<lambda>b. b_id b = bid) (books_data s) of
             None \<Rightarrow> (Response ''Book not found'' 404 NoPayload, s)
           | Some book0 \<Rightarrow>
               let active_records =
                     filter (\<lambda>rec. book_id rec = bid \<and> non_terminal rec) (borrowing_records_data s)
               in if active_records \<noteq> [] then
                    (Response ''Cannot delete book: active borrowing or reservation records exist''
                       400 NoPayload, s)
                  else
                    (Response ''Book deleted successfully'' 200 NoPayload,
                     s\<lparr>books_data := remove_first (\<lambda>b. b_id b = bid) (books_data s)\<rparr>)))"

text \<open>
  \<^verbatim>\<open>borrow_book\<close> reads the clock once on the fresh path and twice on the path that
  collects a reservation (once for the borrow date, once for the due date): \<open>now\<close> and
  \<open>now'\<close> are the two readings.
\<close>

definition borrow_book :: "headers \<Rightarrow> nat \<Rightarrow> datetime \<Rightarrow> datetime \<Rightarrow> state \<Rightarrow> response \<times> state" where
  "borrow_book h bid now now' s =
     (case role_required ''student'' s h of
        Inl e \<Rightarrow> (e, s)
      | Inr current_user \<Rightarrow>
          (case find (\<lambda>b. b_id b = bid) (books_data s) of
             None \<Rightarrow> (Response ''Book not found'' 404 NoPayload, s)
           | Some book0 \<Rightarrow>
               if available_copies book0 \<le> 0 then
                 (Response ''No copies of this book are currently available'' 400 NoPayload, s)
               else
                 let sid = u_id current_user;
                     borrowed_count =
                       length (filter (\<lambda>rec. student_id rec = sid \<and> status rec = ''borrowed'')
                                 (borrowing_records_data s))
                 in if borrowed_count \<ge> 3 then
                      (Response ''You have reached the maximum limit of 3 borrowed books'' 400
                         NoPayload, s)
                    else
                      let same = (\<lambda>rec. student_id rec = sid \<and> book_id rec = bid \<and> non_terminal rec);
                          existing_record = find same (borrowing_records_data s);
                          decremented =
                            update_first (\<lambda>b. b_id b = bid)
                              (\<lambda>b. b\<lparr>available_copies := available_copies b - 1\<rparr>) (books_data s);
                          new_record =
                            \<lparr>r_id = get_next_id (map r_id (borrowing_records_data s)),
                             student_id = sid, book_id = bid, borrow_date = Some now,
                             due_date = Some (calculate_due_date now 4), return_date = None,
                             status = ''borrowed''\<rparr>;
                          fresh =
                            (Response ''Book borrowed successfully'' 201 (RecordPayload new_record),
                             s\<lparr>books_data := decremented,
                               borrowing_records_data := borrowing_records_data s @ [new_record]\<rparr>)
                      in (case existing_record of
                            None \<Rightarrow> fresh
                          | Some er \<Rightarrow>
                              if status er = ''borrowed'' then
                                (Response ''You have already borrowed this book'' 400 NoPayload, s)
                              else if status er = ''reserved'' then
                                let collected =
                                      er\<lparr>status := ''borrowed'', borrow_date := Some now,
                                         due_date := Some (calculate_due_date now' 4)\<rparr>
                                in (Response ''Reserved book collected and borrowed successfully''
                                      200 (RecordPayload collected),
                                    s\<lparr>books_data := decremented,
                                      borrowing_records_data :=
                                        update_first same (\<lambda>_. collected)
                                          (borrowing_records_data s)\<rparr>)
                              else fresh)))"

definition reserve_book :: "headers \<Rightarrow> nat \<Rightarrow> state \<Rightarrow> response \<times> state" where
  "reserve_book h bid s =
     (case role_required ''student'' s h of
        Inl e \<Rightarrow> (e, s)
      | Inr current_user \<Rightarrow>
          (case find (\<lambda>b. b_id b = bid) (books_data s) of
             None \<Rightarrow> (Response ''Book not found'' 404 NoPayload, s)
           | Some book0 \<Rightarrow>
               let sid = u_id current_user;
                   existing_record =
                     find (\<lambda>rec. student_id rec = sid \<and> book_id rec = bid \<and> non_terminal rec)
                       (borrowing_records_data s)
               in if existing_record \<noteq> None then
                    (Response ''You have already borrowed or reserved this book'' 400 NoPayload, s)
                  else
                    let new_record =
                          \<lparr>r_id = get_next_id (map r_id (borrowing_records_data s)),
                           student_id = sid, book_id = bid, borrow_date = None, due_date = None,
                           return_date = None, status = ''reserved''\<rparr>
                    in (Response ''Book reserved successfully'' 201 (RecordPayload new_record),
                        s\<lparr>borrowing_records_data := borrowing_records_data s @ [new_record]\<rparr>)))"

definition cancel_reservation :: "headers \<Rightarrow> nat \<Rightarrow> datetime \<Rightarrow> state \<Rightarrow> response \<times> state" where
  "cancel_reservation h borrow_id now s =
     (case role_required ''student'' s h of
        Inl e \<Rightarrow> (e, s)
      | Inr current_user \<Rightarrow>
          let sid = u_id current_user;
              mine = (\<lambda>rec. r_id rec = borrow_id \<and> student_id rec = sid)
          in (case find mine (borrowing_records_data s) of
                None \<Rightarrow>
                  (Response ''Reservation record not found or does not belong to you'' 404
                     NoPayload, s)
              | Some record \<Rightarrow>
                  if status record \<noteq> ''reserved'' then
                    (Response ''Only reserved books can be cancelled'' 400 NoPayload, s)
                  else
                    let cancelled = record\<lparr>status := ''cancelled'', return_date := Some now\<rparr>
                    in (Response ''Reservation cancelled successfully'' 200
                          (RecordPayload cancelled),
                        s\<lparr>borrowing_records_data :=
                            update_first mine (\<lambda>_. cancelled) (borrowing_records_data s)\<rparr>)))"

definition return_book :: "headers \<Rightarrow> nat \<Rightarrow> datetime \<Rightarrow> state \<Rightarrow> response \<times> state" where
  "return_book h borrow_id now s =
     (case role_required ''librarian'' s h of
        Inl e \<Rightarrow> (e, s)
      | Inr current_user \<Rightarrow>
          (case find (\<lambda>rec. r_id rec = borrow_id) (borrowing_records_data s) of
             None \<Rightarrow> (Response ''Borrowing record not found'' 404 NoPayload, s)
           | Some record \<Rightarrow>
               if \<not> non_terminal record then
                 (Response ''Book is not currently borrowed or reserved'' 400 NoPayload, s)
               else
                 (case find (\<lambda>b. b_id b = book_id record) (books_data s) of
                    None \<Rightarrow> (Response ''Associated book not found'' 500 NoPayload, s)
                  | Some book0 \<Rightarrow>
                      let returned = record\<lparr>return_date := Some now, status := ''returned''\<rparr>;
                          books' =
                            (if borrow_date record \<noteq> None then
                               update_first (\<lambda>b. b_id b = book_id record)
                                 (\<lambda>b. b\<lparr>available_copies := available_copies b + 1\<rparr>)
                                 (books_data s)
                             else books_data s)
                      in (Response ''Book returned successfully'' 200 (RecordPayload returned),
                          s\<lparr>books_data := books',
                            borrowing_records_data :=
                              update_first (\<lambda>rec. r_id rec = borrow_id) (\<lambda>_. returned)
                                (borrowing_records_data s)\<rparr>))))"

section \<open>Runs of the service\<close>

text \<open>
  A request to one of the mutating endpoints, and the state after a sequence of requests.
  The service starts with empty tables; a state is reachable when it is \<open>run acts init_state\<close>
  for some sequence \<open>acts\<close>.
\<close>

datatype action =
    Register string string string string string
  | AddBook headers string string string "int option" "int option"
  | UpdateBook headers nat book_update
  | DeleteBook headers nat
  | Borrow headers nat datetime datetime
  | Reserve headers nat
  | CancelReservation headers nat datetime
  | Return headers nat datetime

fun handle :: "action \<Rightarrow> state \<Rightarrow> response \<times> state" where
  "handle (Register uname password rl new_hash new_token) s =
     register_user uname password rl new_hash new_token s"
| "handle (AddBook h ttl auth isbn_in year total_in) s = add_book h ttl auth isbn_in year total_in s"
| "handle (UpdateBook h bid d) s = update_book h bid d s"
| "handle (DeleteBook h bid) s = delete_book h bid s"
| "handle (Borrow h bid now now') s = borrow_book h bid now now' s"
| "handle (Reserve h bid) s = reserve_book h bid s"
| "handle (CancelReservation h borrow_id now) s = cancel_reservation h borrow_id now s"
| "handle (Return h borrow_id now) s = return_book h borrow_id now s"

fun run :: "action list \<Rightarrow> state \<Rightarrow> state" where
  "run [] s = s"
| "run (a # acts) s = run acts (snd (handle a s))"

section \<open>Consistency properties and the effects of a request\<close>

text \<open>The three counts the consistency rules speak about, over the table of records.\<close>

definition borrowed_for_book :: "borrowing_record list \<Rightarrow> nat \<Rightarrow> nat" where
  "borrowed_for_book recs bid =
     length (filter (\<lambda>rec. book_id rec = bid \<and> status rec = ''borrowed'') recs)"

definition borrowed_by :: "borrowing_record list \<Rightarrow> nat \<Rightarrow> nat" where
  "borrowed_by recs sid =
     length (filter (\<lambda>rec. student_id rec = sid \<and> status rec = ''borrowed'') recs)"

definition active_for :: "borrowing_record list \<Rightarrow> nat \<Rightarrow> nat \<Rightarrow> nat" where
  "active_for recs sid bid =
     length (filter (\<lambda>rec. student_id rec = sid \<and> book_id rec = bid \<and> non_terminal rec) recs)"

text \<open>
  What one request can do to the tables of books and records, one rule for each path of an
  endpoint that writes (\<open>no_change\<close> covers the failing paths and the registration of
  users). Lemma \<open>handle_effect\<close> below shows that every request falls under one rule.
\<close>

inductive effect :: "state \<Rightarrow> state \<Rightarrow> bool" where
  no_change:
    "books_data s' = books_data s \<Longrightarrow> borrowing_records_data s' = borrowing_records_data s
     \<Longrightarrow> effect s s'"
| book_added:
    "b_id nb = get_next_id (map b_id (books_data s)) \<Longrightarrow> available_copies nb = total_copies nb
     \<Longrightarrow> effect s (s\<lparr>books_data := books_data s @ [nb]\<rparr>)"
| book_updated:
    "find (\<lambda>b. b_id b = bid) (books_data s) = Some b0 \<Longrightarrow> b_id b1 = bid
     \<Longrightarrow> total_copies b1 - available_copies b1 = total_copies b0 - available_copies b0
     \<Longrightarrow> effect s (s\<lparr>books_data := update_first (\<lambda>b. b_id b = bid) (\<lambda>_. b1) (books_data s)\<rparr>)"
| book_deleted:
    "\<forall>rec \<in> set (borrowing_records_data s). book_id rec = bid \<longrightarrow> \<not> non_terminal rec
     \<Longrightarrow> effect s (s\<lparr>books_data := remove_first (\<lambda>b. b_id b = bid) (books_data s)\<rparr>)"
| borrowed_fresh:
    "find (\<lambda>b. b_id b = bid) (books_data s) = Some b0
     \<Longrightarrow> borrowed_by (borrowing_records_data s) sid < 3
     \<Longrightarrow> active_for (borrowing_records_data s) sid bid = 0
     \<Longrightarrow> effect s
          (s\<lparr>books_data :=
               update_first (\<lambda>b. b_id b = bid)
                 (\<lambda>b. b\<lparr>available_copies := available_copies b - 1\<rparr>) (books_data s),
             borrowing_records_data :=
               borrowing_records_data s @
                 [\<lparr>r_id = get_next_id (map r_id (borrowing_records_data s)), student_id = sid,
                   book_id = bid, borrow_date = Some t, due_date = Some due, return_date = None,
                   status = ''borrowed''\<rparr>]\<rparr>)"
| borrowed_reserved:
    "find (\<lambda>b. b_id b = bid) (books_data s) = Some b0
     \<Longrightarrow> borrowed_by (borrowing_records_data s) sid < 3
     \<Longrightarrow> find (\<lambda>rec. student_id rec = sid \<and> book_id rec = bid \<and> non_terminal rec)
           (borrowing_records_data s) = Some er
     \<Longrightarrow> status er = ''reserved''
     \<Longrightarrow> effect s
          (s\<lparr>books_data :=
               update_first (\<lambda>b. b_id b = bid)
                 (\<lambda>b. b\<lparr>available_copies := available_copies b - 1\<rparr>) (books_data s),
             borrowing_records_data :=
               update_first (\<lambda>rec. student_id rec = sid \<and> book_id rec = bid \<and> non_terminal rec)
                 (\<lambda>_. er\<lparr>status := ''borrowed'', borrow_date := Some t, due_date := Some due\<rparr>)
                 (borrowing_records_data s)\<rparr>)"
| reservation_added:
    "find (\<lambda>b. b_id b = bid) (books_data s) = Some b0
     \<Longrightarrow> active_for (borrowing_records_data s) sid bid = 0
     \<Longrightarrow> effect s
          (s\<lparr>borrowing_records_data :=
               borrowing_records_data s @
                 [\<lparr>r_id = get_next_id (map r_id (borrowing_records_data s)), student_id = sid,
                   book_id = bid, borrow_date = None, due_date = None, return_date = None,
                   status = ''reserved''\<rparr>]\<rparr>)"
| reservation_cancelled:
    "find (\<lambda>rec. r_id rec = rid \<and> student_id rec = sid) (borrowing_records_data s) = Some r
     \<Longrightarrow> status r = ''reserved''
     \<Longrightarrow> effect s
          (s\<lparr>borrowing_records_data :=
               update_first (\<lambda>rec. r_id rec = rid \<and> student_id rec = sid)
                 (\<lambda>_. r\<lparr>status := ''cancelled'', return_date := Some t\<rparr>)
                 (borrowing_records_data s)\<rparr>)"
| record_returned:
    "find (\<lambda>rec. r_id rec = rid) (borrowing_records_data s) = Some r \<Longrightarrow> non_terminal r
     \<Longrightarrow> find (\<lambda>b. b_id b = book_id r) (books_data s) = Some b0
     \<Longrightarrow> effect s
          (s\<lparr>books_data :=
               (if borrow_date r \<noteq> None then
                  update_first (\<lambda>b. b_id b = book_id r)
                    (\<lambda>b. b\<lparr>available_copies := available_copies b + 1\<rparr>) (books_data s)
                else books_data s),
             borrowing_records_data :=
               update_first (\<lambda>rec. r_id rec = rid)
                 (\<lambda>_. r\<lparr>return_date := Some t, status := ''returned''\<rparr>)
                 (borrowing_records_data s)\<rparr>)"

text \<open>
  The properties that hold of every reachable state. Identifiers are unique; a borrowed
  record has a borrow date and a reserved one has none (\<open>dated\<close>); a non-terminal record
  refers to a book of the store (\<open>referenced\<close>); and the three rules of the specification:
  copy counts (\<open>copies_ok\<close>), one non-terminal record for a student and a book, at most
  three borrowed records for a student.
\<close>

definition dated :: "state \<Rightarrow> bool" where
  "dated s = (\<forall>rec \<in> set (borrowing_records_data s).
            (status rec = ''borrowed'' \<longrightarrow> borrow_date rec \<noteq> None)
            \<and> (status rec = ''reserved'' \<longrightarrow> borrow_date rec = None))"

definition referenced :: "state \<Rightarrow> bool" where
  "referenced s = (\<forall>rec \<in> set (borrowing_records_data s).
            non_terminal rec \<longrightarrow> book_id rec \<in> set (map b_id (books_data s)))"

definition copies_ok :: "book list \<Rightarrow> borrowing_record list \<Rightarrow> bool" where
  "copies_ok books recs =
     (\<forall>b \<in> set books. available_copies b = total_copies b - int (borrowed_for_book recs (b_id b)))"

definition consistent :: "state \<Rightarrow> bool" where
  "consistent s =
     (distinct (map b_id (books_data s))
      \<and> distinct (map r_id (borrowing_records_data s))
      \<and> dated s \<and> referenced s
      \<and> copies_ok (books_data s) (borrowing_records_data s)
      \<and> (\<forall>sid bid. active_for (borrowing_records_data s) sid bid \<le> 1)
      \<and> (\<forall>sid. borrowed_by (borrowing_records_data s) sid \<le> 3))"

section \<open>Concrete inputs\<close>

text \<open>Monday 1 January 2024, 10:30:15.000042 (day number 738886).\<close>

definition monday_2024_01_01 :: datetime where
  "monday_2024_01_01 = \<lparr>ordinal = 738886, hour = 10, minute = 30, second = 15, microsecond = 42\<rparr>"

text \<open>The headers of a librarian (user 1) and of a student (user 2, by token).\<close>

definition librarian_headers :: headers where
  "librarian_headers = \<lparr>x_user_id = Some 1, x_auth_token = []\<rparr>"

definition student_headers :: headers where
  "student_headers = \<lparr>x_user_id = None, x_auth_token = ''token-a''\<rparr>"

definition tuesday_2024_01_02 :: datetime where
  "tuesday_2024_01_02 = \<lparr>ordinal = 738887, hour = 9, minute = 0, second = 0, microsecond = 0\<rparr>"

definition the_librarian :: user where
  "the_librarian = \<lparr>u_id = 1, username = ''lib'', password_hash = ''hash-1'',
                     role = ''librarian'', token = []\<rparr>"

definition the_student :: user where
  "the_student = \<lparr>u_id = 2, username = ''alice'', password_hash = ''hash-2'',
                   role = ''student'', token = ''token-a''\<rparr>"

definition dune :: book where
  "dune = \<lparr>b_id = 1, title = ''Dune'', author = ''Herbert'', isbn = ''isbn-1'',
           publication_year = Some 1965, available_copies = 1, total_copies = 1\<rparr>"

definition emma :: book where
  "emma = \<lparr>b_id = 2, title = ''Emma'', author = ''Austen'', isbn = ''isbn-2'',
           publication_year = None, available_copies = 1, total_copies = 1\<rparr>"

definition ulysses :: book where
  "ulysses = \<lparr>b_id = 3, title = ''Ulysses'', author = ''Joyce'', isbn = ''isbn-3'',
              publication_year = None, available_copies = 1, total_copies = 1\<rparr>"

definition walden :: book where
  "walden = \<lparr>b_id = 4, title = ''Walden'', author = ''Thoreau'', isbn = ''isbn-4'',
             publication_year = None, available_copies = 1, total_copies = 1\<rparr>"

definition due_2024_01_29 :: datetime where
  "due_2024_01_29 = \<lparr>ordinal = 738914, hour = 23, minute = 59, second = 59,
                      microsecond = 999999\<rparr>"

definition loan :: "nat \<Rightarrow> nat \<Rightarrow> borrowing_record" where
  "loan rid bid = \<lparr>r_id = rid, student_id = 2, book_id = bid,
       borrow_date = Some monday_2024_01_01, due_date = Some due_2024_01_29,
       return_date = None, status = ''borrowed''\<rparr>"

definition dune_reservation :: borrowing_record where
  "dune_reservation = \<lparr>r_id = 1, student_id = 2, book_id = 1, borrow_date = None,
       due_date = None, return_date = None, status = ''reserved''\<rparr>"

text \<open>
  Sequences of requests from the empty store, and the states they lead to: a librarian and
  a student register and the librarian adds one single-copy book (\<open>setup\<close>); then the student
  borrows it (\<open>borrow\<close>) and the librarian takes it back (\<open>return\<close>); or the student
  reserves it (\<open>reserve\<close>); or a second book is added before the student borrows the first
  (\<open>two_book\<close>); or four books are added and the student borrows three (\<open>limit\<close>).
\<close>

definition setup_requests :: "action list" where
  "setup_requests =
     [Register ''lib'' ''secret'' ''librarian'' ''hash-1'' ''unused'',
      Register ''alice'' ''secret'' ''student'' ''hash-2'' ''token-a'',
      AddBook librarian_headers ''Dune'' ''Herbert'' ''isbn-1'' (Some 1965) (Some 1)]"

definition borrow_requests :: "action list" where
  "borrow_requests =
     setup_requests @ [Borrow student_headers 1 monday_2024_01_01 monday_2024_01_01]"

definition return_requests :: "action list" where
  "return_requests = borrow_requests @ [Return librarian_headers 1 tuesday_2024_01_02]"

definition reserve_requests :: "action list" where
  "reserve_requests = setup_requests @ [Reserve student_headers 1]"

definition two_book_requests :: "action list" where
  "two_book_requests =
     setup_requests @
     [AddBook librarian_headers ''Emma'' ''Austen'' ''isbn-2'' None (Some 1),
      Borrow student_headers 1 monday_2024_01_01 monday_2024_01_01]"

definition limit_requests :: "action list" where
  "limit_requests =
     setup_requests @
     [AddBook librarian_headers ''Emma'' ''Austen'' ''isbn-2'' None (Some 1),
      AddBook librarian_headers ''Ulysses'' ''Joyce'' ''isbn-3'' None (Some 1),
      AddBook librarian_headers ''Walden'' ''Thoreau'' ''isbn-4'' None (Some 1),
      Borrow student_headers 1 monday_2024_01_01 monday_2024_01_01,
      Borrow student_headers 2 monday_2024_01_01 monday_2024_01_01,
      Borrow student_headers 3 monday_2024_01_01 monday_2024_01_01]"

definition setup_state :: state where
  "setup_state = \<lparr>users_data = [the_librarian, the_student], books_data = [dune],
                   borrowing_records_data = []\<rparr>"

definition borrowed_state :: state where
  "borrowed_state = \<lparr>users_data = [the_librarian, the_student],
                      books_data = [dune\<lparr>available_copies := 0\<rparr>],
                      borrowing_records_data = [loan 1 1]\<rparr>"

definition returned_state :: state where
  "returned_state = \<lparr>users_data = [the_librarian, the_student], books_data = [dune],
       borrowing_records_data =
         [(loan 1 1)\<lparr>return_date := Some tuesday_2024_01_02, status := ''returned''\<rparr>]\<rparr>"

definition reserved_state :: state where
  "reserved_state = \<lparr>users_data = [the_librarian, the_student], books_data = [dune],
                      borrowing_records_data = [dune_reservation]\<rparr>"

definition two_book_state :: state where
  "two_book_state = \<lparr>users_data = [the_librarian, the_student],
                      books_data = [dune\<lparr>available_copies := 0\<rparr>, emma],
                      borrowing_records_data = [loan 1 1]\<rparr>"

definition limit_state :: state where
  "limit_state = \<lparr>users_data = [the_librarian, the_student],
       books_data = [dune\<lparr>available_copies := 0\<rparr>, emma\<lparr>available_copies := 0\<rparr>,
                     ulysses\<lparr>available_copies := 0\<rparr>, walden],
       borrowing_records_data = [loan 1 1, loan 2 2, loan 3 3]\<rparr>"

text \<open>
  Bodies of update requests: only \<open>total_copies\<close>; \<open>total_copies\<close> with the isbn of the
  second book; \<open>total_copies\<close> with a new title.
\<close>

definition total_only :: "int \<Rightarrow> book_update" where
  "total_only n = \<lparr>upd_title = None, upd_author = None, upd_isbn = None,
                    upd_publication_year = None, upd_total_copies = Some n\<rparr>"

definition isbn_and_total :: book_update where
  "isbn_and_total = \<lparr>upd_title = None, upd_author = None, upd_isbn = Some ''isbn-2'',
                      upd_publication_year = None, upd_total_copies = Some 0\<rparr>"

definition title_and_total :: book_update where
  "title_and_total = \<lparr>upd_title = Some ''Dune II'', upd_author = None, upd_isbn = None,
                       upd_publication_year = None, upd_total_copies = Some 0\<rparr>"

section \<open>The due-date calculator\<close>

lemma working_day_offsets:
  assumes "weekday d = 0"
  shows "is_working_day (add_days d 1)" "is_working_day (add_days d 2)"
    "is_working_day (add_days d 3)" "is_working_day (add_days d 4)"
    "\<not> is_working_day (add_days d 5)" "\<not> is_working_day (add_days d 6)"
    "is_working_day (add_days d 7)" "weekday (add_days d 7) = 0"
  using assms unfolding weekday_def is_working_day_def add_days_def
  by simp_all presburger+

lemma add_days_add: "add_days (add_days d j) k = add_days d (j + k)"
  by (simp add: add_days_def)

lemma seven_more: "n + 7 = Suc (Suc (Suc (Suc (Suc (Suc (Suc n))))))"
  by simp

text \<open>A full week of the loop that starts on a Monday and does not reach the target.\<close>

lemma week_step:
  assumes "weekday d = 0" and "c + 5 < w * 5"
  shows "due_date_loop (n + 7) w d c = due_date_loop n w (add_days d 7) (c + 5)"
  using assms working_day_offsets[OF assms(1)]
  by (simp add: seven_more Let_def add_days_add add.commute)

text \<open>The week in which the target is reached: the loop breaks on the next Monday.\<close>

lemma week_last:
  assumes "weekday d = 0" and "c + 5 = w * 5"
  shows "due_date_loop (n + 7) w d c = add_days d 7"
  using assms working_day_offsets[OF assms(1)]
  by (simp add: seven_more Let_def add_days_add)

lemma due_date_loop_monday:
  assumes "weekday d = 0"
  shows "due_date_loop 35 4 d 0 = add_days d 28"
proof -
  have w7: "weekday (add_days d 7) = 0" by (rule working_day_offsets(8)[OF assms])
  have w14: "weekday (add_days d 14) = 0"
    using working_day_offsets(8)[OF w7] by (simp add: add_days_add)
  have w21: "weekday (add_days d 21) = 0"
    using working_day_offsets(8)[OF w14] by (simp add: add_days_add)
  have "due_date_loop (28 + 7) 4 d 0 = due_date_loop (21 + 7) 4 (add_days d 7) 5"
    using week_step[OF assms, of 0 4 28] by simp
  also have "\<dots> = due_date_loop (14 + 7) 4 (add_days d 14) 10"
    using week_step[OF w7, of 5 4 21] by (simp add: add_days_add)
  also have "\<dots> = due_date_loop (7 + 7) 4 (add_days d 21) 15"
    using week_step[OF w14, of 10 4 14] by (simp add: add_days_add)
  also have "\<dots> = add_days d 28"
    using week_last[OF w21, of 15 4 7] by (simp add: add_days_add)
  finally show ?thesis by simp
qed

lemma weekdays_in_four_weeks:
  assumes "weekday d = 0"
  shows "length (filter (\<lambda>k. is_working_day (add_days d k)) [1..28]) = 20"
proof -
  have w7: "weekday (add_days d 7) = 0" by (rule working_day_offsets(8)[OF assms])
  have w14: "weekday (add_days d 14) = 0"
    using working_day_offsets(8)[OF w7] by (simp add: add_days_add)
  have w21: "weekday (add_days d 21) = 0"
    using working_day_offsets(8)[OF w14] by (simp add: add_days_add)
  have up: "[1..28] = [1,2,3,4,5,6,7,8,9,10,11,12,13,14,15,16,17,18,19,20,21,22,23,24,25,26,27,28::int]"
    by (simp add: upto.simps)
  show ?thesis
    unfolding up using working_day_offsets[OF assms] working_day_offsets[OF w7]
      working_day_offsets[OF w14] working_day_offsets[OF w21]
    by (simp add: add_days_add)
qed

text \<open>
  C9: for a borrow instant \<open>d\<close> on a Monday, \<open>calculate_due_date d 4\<close> is the day 28 calendar
  days after \<open>d\<close> at 23:59:59.999999. That day is a working day, and exactly 20 of the days
  \<open>d + 1, \<dots>, d + 28\<close> are working days, so it is the 20th weekday after \<open>d\<close>. The function
  is a value of its two arguments only: it reads and writes no state.
\<close>

theorem calculate_due_date_monday:
  assumes "weekday d = 0"
  shows "calculate_due_date d 4 =
           d\<lparr>ordinal := ordinal d + 28, hour := 23, minute := 59, second := 59,
             microsecond := 999999\<rparr>
         \<and> is_working_day (calculate_due_date d 4)
         \<and> length (filter (\<lambda>k. is_working_day (add_days d k)) [1..28]) = 20"
proof -
  have first: "calculate_due_date d 4 =
           d\<lparr>ordinal := ordinal d + 28, hour := 23, minute := 59, second := 59,
             microsecond := 999999\<rparr>"
    by (simp add: calculate_due_date_def due_date_loop_monday[OF assms] add_days_def)
  have "weekday (calculate_due_date d 4) = 0"
    using assms unfolding first weekday_def by simp presburger
  then have second: "is_working_day (calculate_due_date d 4)"
    by (simp add: is_working_day_def)
  show ?thesis using first second weekdays_in_four_weeks[OF assms] by simp
qed

theorem calculate_due_date_monday_witness:
  "weekday monday_2024_01_01 = 0
   \<and> calculate_due_date monday_2024_01_01 4 =
       \<lparr>ordinal = 738914, hour = 23, minute = 59, second = 59, microsecond = 999999\<rparr>"
proof -
  have h: "weekday monday_2024_01_01 = 0"
    by (simp add: weekday_def monday_2024_01_01_def)
  show ?thesis using h calculate_due_date_monday[OF h]
    by (simp add: monday_2024_01_01_def)
qed

section \<open>Lists with a first match\<close>

lemma find_None_filter: "find P xs = None \<longleftrightarrow> filter P xs = []"
  by (induction xs) auto

lemma find_Some_holds: "find P xs = Some x \<Longrightarrow> P x \<and> x \<in> set xs"
  by (induction xs) (auto split: if_splits)

lemma update_first_none: "find P xs = None \<Longrightarrow> update_first P f xs = xs"
  by (induction xs) (auto split: if_splits)

lemma update_first_self: "find P xs = Some x \<Longrightarrow> update_first P (\<lambda>_. x) xs = xs"
  by (induction xs) (auto split: if_splits)

lemma find_update_first:
  "find P xs = Some x \<Longrightarrow> P (f x) \<Longrightarrow> find P (update_first P f xs) = Some (f x)"
  by (induction xs) (auto split: if_splits)

lemma find_update_first_other:
  "(\<And>x. P x \<Longrightarrow> Q (f x) = Q x) \<Longrightarrow> (\<And>x. P x \<Longrightarrow> Q x \<Longrightarrow> f x = x)
   \<Longrightarrow> find Q (update_first P f xs) = find Q xs"
  by (induction xs) (auto split: if_splits)

lemma length_update_first: "length (update_first P f xs) = length xs"
  by (induction xs) auto

lemma map_update_first: "(\<And>x. P x \<Longrightarrow> k (f x) = k x) \<Longrightarrow> map k (update_first P f xs) = map k xs"
  by (induction xs) auto

lemma count_update_first:
  "find P xs = Some x \<Longrightarrow>
   length (filter Q (update_first P f xs)) + (if Q x then 1 else 0)
     = length (filter Q xs) + (if Q (f x) then 1 else 0)"
  by (induction xs) (auto split: if_splits)

lemma set_update_first:
  "find P xs = Some x \<Longrightarrow> y \<in> set (update_first P f xs) \<Longrightarrow> y = f x \<or> (y \<in> set xs \<and> y \<noteq> x) \<or> (y = x \<and> y \<in> set xs)"
  by (induction xs) (auto split: if_splits)

lemma set_update_first_key:
  "distinct (map k xs) \<Longrightarrow> find (\<lambda>x. k x = v) xs = Some x \<Longrightarrow> y \<in> set (update_first (\<lambda>x. k x = v) f xs)
   \<Longrightarrow> y = f x \<or> (y \<in> set xs \<and> k y \<noteq> v)"
proof (induction xs)
  case Nil
  then show ?case by simp
next
  case (Cons a xs)
  show ?case
  proof (cases "k a = v")
    case True
    then have "x = a" using Cons.prems(2) by simp
    moreover have "\<forall>z \<in> set xs. k z \<noteq> v" using Cons.prems(1) True by (fastforce simp: image_iff)
    ultimately show ?thesis using Cons.prems(3) True by auto
  next
    case False
    then show ?thesis using Cons by auto
  qed
qed

lemma set_remove_first: "set (remove_first P xs) \<subseteq> set xs"
  by (induction xs) auto

lemma map_remove_first_distinct: "distinct (map k xs) \<Longrightarrow> distinct (map k (remove_first P xs))"
proof (induction xs)
  case Nil
  then show ?case by simp
next
  case (Cons a xs)
  have "k a \<notin> k ` set (remove_first P xs)"
    using Cons.prems set_remove_first[of P xs] by auto
  then show ?case using Cons by auto
qed

lemma remove_first_keeps: "x \<in> set xs \<Longrightarrow> \<not> P x \<Longrightarrow> x \<in> set (remove_first P xs)"
  by (induction xs) auto

lemma remove_first_key:
  "distinct (map k xs) \<Longrightarrow> y \<in> set (remove_first (\<lambda>x. k x = v) xs) \<Longrightarrow> k y \<noteq> v"
  by (induction xs) (auto split: if_splits simp: image_iff)

lemma get_next_id_fresh: "x \<in> set ids \<Longrightarrow> x < get_next_id ids"
  by (auto simp: get_next_id_def less_Suc_eq_le)

lemma get_next_id_notin: "get_next_id ids \<notin> set ids"
  using get_next_id_fresh by blast

section \<open>Every request has one of the effects\<close>

lemma active_for_find:
  "active_for recs sid bid = 0 \<longleftrightarrow>
   find (\<lambda>rec. student_id rec = sid \<and> book_id rec = bid \<and> non_terminal rec) recs = None"
  by (simp add: active_for_def find_None_filter)

lemma unchanged_effect: "effect s s"
  by (rule effect.no_change) simp_all

lemma register_user_effect: "effect s (snd (register_user uname password rl new_hash new_token s))"
  by (rule effect.no_change) (simp_all add: register_user_def Let_def split: option.splits)

lemma add_book_effect: "effect s (snd (add_book h ttl auth isbn_in year total_in s))"
proof (cases "role_required ''librarian'' s h")
  case (Inl e)
  then show ?thesis by (simp add: add_book_def unchanged_effect)
next
  case (Inr u)
  then show ?thesis
    by (simp add: add_book_def Let_def unchanged_effect effect.book_added)
qed

lemma update_book_effect: "effect s (snd (update_book h bid d s))"
proof (cases "role_required ''librarian'' s h")
  case (Inl e)
  then show ?thesis by (simp add: update_book_def unchanged_effect)
next
  case (Inr u)
  show ?thesis
  proof (cases "find (\<lambda>b. b_id b = bid) (books_data s)")
    case None
    then show ?thesis using Inr by (simp add: update_book_def unchanged_effect)
  next
    case (Some b0)
    have id0: "bid = b_id b0" using find_Some_holds[OF Some] by simp
    have store: "\<And>b1. b_id b1 = b_id b0 \<Longrightarrow>
        total_copies b1 - available_copies b1 = total_copies b0 - available_copies b0 \<Longrightarrow>
        effect s (s\<lparr>books_data := update_first (\<lambda>x. b_id x = b_id b0) (\<lambda>_. b1) (books_data s)\<rparr>)"
      using effect.book_updated[OF Some] unfolding id0 by blast
    show ?thesis using Inr Some unfolding id0
      by (auto simp: update_book_def Let_def split: option.splits intro!: store)
  qed
qed

lemma delete_book_effect: "effect s (snd (delete_book h bid s))"
proof (cases "role_required ''librarian'' s h")
  case (Inl e)
  then show ?thesis by (simp add: delete_book_def unchanged_effect)
next
  case (Inr u)
  show ?thesis using Inr
    by (auto simp: delete_book_def Let_def unchanged_effect filter_empty_conv
        split: option.splits intro!: effect.book_deleted)
qed

lemma borrow_book_effect: "effect s (snd (borrow_book h bid now now' s))"
proof (cases "role_required ''student'' s h")
  case (Inl e)
  then show ?thesis by (simp add: borrow_book_def unchanged_effect)
next
  case (Inr u)
  show ?thesis
  proof (cases "find (\<lambda>b. b_id b = bid) (books_data s)")
    case None
    then show ?thesis using Inr by (simp add: borrow_book_def unchanged_effect)
  next
    case (Some b0)
    let ?same = "\<lambda>rec. student_id rec = u_id u \<and> book_id rec = bid \<and> non_terminal rec"
    show ?thesis
    proof (cases "available_copies b0 \<le> 0 \<or> 3 \<le> borrowed_by (borrowing_records_data s) (u_id u)")
      case True
      then show ?thesis using Inr Some
        by (auto simp: borrow_book_def Let_def borrowed_by_def unchanged_effect)
    next
      case False
      then have lim: "borrowed_by (borrowing_records_data s) (u_id u) < 3" by simp
      show ?thesis
      proof (cases "find ?same (borrowing_records_data s)")
        case None
        then have "active_for (borrowing_records_data s) (u_id u) bid = 0"
          by (simp add: active_for_find)
        from effect.borrowed_fresh[OF Some lim this] show ?thesis
          using Inr Some False None by (simp add: borrow_book_def Let_def borrowed_by_def)
      next
        case (Some er)
        have nt: "non_terminal er" using find_Some_holds[OF Some] by simp
        show ?thesis
        proof (cases "status er = ''borrowed''")
          case True
          then show ?thesis using Inr \<open>find _ (books_data s) = Some b0\<close> False Some
            by (simp add: borrow_book_def Let_def borrowed_by_def unchanged_effect)
        next
          case notb: False
          then have res: "status er = ''reserved''" using nt by (simp add: non_terminal_def)
          from effect.borrowed_reserved[OF \<open>find _ (books_data s) = Some b0\<close> lim Some res]
          show ?thesis using Inr \<open>find _ (books_data s) = Some b0\<close> False Some res
            by (simp add: borrow_book_def Let_def borrowed_by_def)
        qed
      qed
    qed
  qed
qed

lemma reserve_book_effect: "effect s (snd (reserve_book h bid s))"
proof (cases "role_required ''student'' s h")
  case (Inl e)
  then show ?thesis by (simp add: reserve_book_def unchanged_effect)
next
  case (Inr u)
  show ?thesis using Inr
    by (auto simp: reserve_book_def Let_def unchanged_effect active_for_find
        split: option.splits intro!: effect.reservation_added)
qed

lemma cancel_reservation_effect: "effect s (snd (cancel_reservation h borrow_id now s))"
proof (cases "role_required ''student'' s h")
  case (Inl e)
  then show ?thesis by (simp add: cancel_reservation_def unchanged_effect)
next
  case (Inr u)
  show ?thesis using Inr
    by (auto simp: cancel_reservation_def Let_def unchanged_effect
        split: option.splits intro!: effect.reservation_cancelled)
qed

lemma return_book_effect: "effect s (snd (return_book h borrow_id now s))"
proof (cases "role_required ''librarian'' s h")
  case (Inl e)
  then show ?thesis by (simp add: return_book_def unchanged_effect)
next
  case (Inr u)
  show ?thesis
  proof (cases "find (\<lambda>rec. r_id rec = borrow_id) (borrowing_records_data s)")
    case None
    then show ?thesis using Inr by (simp add: return_book_def unchanged_effect)
  next
    case (Some r)
    show ?thesis
    proof (cases "non_terminal r")
      case False
      then show ?thesis using Inr Some by (simp add: return_book_def unchanged_effect)
    next
      case True
      show ?thesis
      proof (cases "find (\<lambda>b. b_id b = book_id r) (books_data s)")
        case None
        then show ?thesis using Inr Some True by (simp add: return_book_def unchanged_effect)
      next
        case (Some b0)
        from effect.record_returned[OF \<open>find _ (borrowing_records_data s) = Some r\<close> True Some]
        show ?thesis using Inr \<open>find _ (borrowing_records_data s) = Some r\<close> True Some
          by (simp add: return_book_def Let_def)
      qed
    qed
  qed
qed

lemma handle_effect: "effect s (snd (handle a s))"
  by (cases a)
    (simp_all add: register_user_effect add_book_effect update_book_effect delete_book_effect
      borrow_book_effect reserve_book_effect cancel_reservation_effect return_book_effect)

section \<open>The effects preserve consistency\<close>

lemma map_update_first_found:
  "find P xs = Some x \<Longrightarrow> k (f x) = k x \<Longrightarrow> map k (update_first P f xs) = map k xs"
  by (induction xs) (auto split: if_splits)

lemma set_update_first_found:
  "find P xs = Some x \<Longrightarrow> y \<in> set (update_first P f xs) \<Longrightarrow> y = f x \<or> y \<in> set xs"
  by (induction xs) (auto split: if_splits)

lemma find_key: "find (\<lambda>x. k x = v) xs = Some x \<Longrightarrow> k x = v"
  using find_Some_holds[of "\<lambda>x. k x = v" xs x] by simp

subsection \<open>Unique identifiers\<close>

lemma effect_distinct_books:
  assumes "effect s s'" and "distinct (map b_id (books_data s))"
  shows "distinct (map b_id (books_data s'))"
  using assms
proof (cases rule: effect.cases)
  case (book_added nb)
  then show ?thesis using assms(2) get_next_id_notin[of "map b_id (books_data s)"] by simp
next
  case (book_updated bid b0 b1)
  then show ?thesis using assms(2) find_key[OF book_updated(2)]
    by (simp add: map_update_first_found[OF book_updated(2)])
next
  case (book_deleted bid)
  then show ?thesis using assms(2) by (simp add: map_remove_first_distinct)
next
  case (borrowed_fresh bid b0 sid t due)
  then show ?thesis using assms(2) by (simp add: map_update_first_found[OF borrowed_fresh(2)])
next
  case (borrowed_reserved bid b0 sid er due t)
  then show ?thesis using assms(2) by (simp add: map_update_first_found[OF borrowed_reserved(2)])
next
  case (record_returned rid r b0 t)
  then show ?thesis using assms(2) by (simp add: map_update_first_found[OF record_returned(4)])
qed simp_all

lemma effect_distinct_records:
  assumes "effect s s'" and "distinct (map r_id (borrowing_records_data s))"
  shows "distinct (map r_id (borrowing_records_data s'))"
  using assms
proof (cases rule: effect.cases)
  case (borrowed_fresh bid b0 sid t due)
  then show ?thesis
    using assms(2) get_next_id_notin[of "map r_id (borrowing_records_data s)"] by simp
next
  case (borrowed_reserved bid b0 sid er due t)
  then show ?thesis using assms(2) by (simp add: map_update_first_found[OF borrowed_reserved(4)])
next
  case (reservation_added bid b0 sid)
  then show ?thesis
    using assms(2) get_next_id_notin[of "map r_id (borrowing_records_data s)"] by simp
next
  case (reservation_cancelled rid sid r t)
  then show ?thesis using assms(2) by (simp add: map_update_first_found[OF reservation_cancelled(2)])
next
  case (record_returned rid r b0 t)
  then show ?thesis using assms(2) by (simp add: map_update_first_found[OF record_returned(2)])
qed simp_all

subsection \<open>Dates and references of the records\<close>

lemma effect_dated:
  assumes "effect s s'" and "dated s"
  shows "dated s'"
  using assms
proof (cases rule: effect.cases)
  case (borrowed_reserved bid b0 sid er due t)
  then show ?thesis using assms(2) unfolding dated_def
    by (auto dest!: set_update_first_found[OF borrowed_reserved(4)])
next
  case (reservation_cancelled rid sid r t)
  then show ?thesis using assms(2) unfolding dated_def
    by (auto dest!: set_update_first_found[OF reservation_cancelled(2)])
next
  case (record_returned rid r b0 t)
  then show ?thesis using assms(2) unfolding dated_def
    by (auto dest!: set_update_first_found[OF record_returned(2)])
qed (auto simp: dated_def)

lemma find_key_mem: "find (\<lambda>x. k x = v) xs = Some x \<Longrightarrow> v \<in> set (map k xs)"
  using find_Some_holds[of "\<lambda>x. k x = v" xs x] by auto

lemma ball_update_first:
  "find P xs = Some x \<Longrightarrow> Q (f x) \<Longrightarrow> \<forall>y \<in> set xs. Q y \<Longrightarrow> \<forall>y \<in> set (update_first P f xs). Q y"
  using set_update_first_found[of P xs x _ f] by blast

lemma effect_referenced:
  assumes "effect s s'" and "referenced s"
  shows "referenced s'"
  using assms(1)
proof (cases rule: effect.cases)
  case no_change
  then show ?thesis using assms(2) by (simp add: referenced_def)
next
  case (book_added nb)
  then show ?thesis using assms(2) by (auto simp: referenced_def)
next
  case (book_updated bid b0 b1)
  have "map b_id (books_data s') = map b_id (books_data s)"
    using book_updated find_key[OF book_updated(2)]
    by (simp add: map_update_first_found[OF book_updated(2)])
  then show ?thesis using assms(2) book_updated(1) by (simp add: referenced_def)
next
  case (book_deleted bid)
  show ?thesis unfolding referenced_def
  proof (intro ballI impI)
    fix rec assume r: "rec \<in> set (borrowing_records_data s')" and nt: "non_terminal rec"
    then have "rec \<in> set (borrowing_records_data s)" using book_deleted by simp
    then have "book_id rec \<noteq> bid" and "book_id rec \<in> set (map b_id (books_data s))"
      using book_deleted(2) nt assms(2) by (auto simp: referenced_def)
    then obtain b where "b \<in> set (books_data s)" "b_id b = book_id rec" "b_id b \<noteq> bid" by auto
    then have "b \<in> set (remove_first (\<lambda>b. b_id b = bid) (books_data s))"
      by (simp add: remove_first_keeps)
    then show "book_id rec \<in> set (map b_id (books_data s'))"
      using book_deleted(1) \<open>b_id b = book_id rec\<close> by force
  qed
next
  case (borrowed_fresh bid b0 sid t due)
  have ids: "map b_id (books_data s') = map b_id (books_data s)"
    using borrowed_fresh(1) by (simp add: map_update_first_found[OF borrowed_fresh(2)])
  show ?thesis using assms(2) find_key_mem[OF borrowed_fresh(2)] borrowed_fresh(1)
    unfolding referenced_def ids by auto
next
  case (borrowed_reserved bid b0 sid er due t)
  have ids: "map b_id (books_data s') = map b_id (books_data s)"
    using borrowed_reserved(1) by (simp add: map_update_first_found[OF borrowed_reserved(2)])
  have recs: "borrowing_records_data s' =
      update_first (\<lambda>rec. student_id rec = sid \<and> book_id rec = bid \<and> non_terminal rec)
        (\<lambda>_. er\<lparr>status := ''borrowed'', borrow_date := Some t, due_date := Some due\<rparr>)
        (borrowing_records_data s)"
    using borrowed_reserved(1) by simp
  have "book_id er = bid" using find_Some_holds[OF borrowed_reserved(4)] by simp
  then show ?thesis unfolding referenced_def ids recs
    using assms(2) find_key_mem[OF borrowed_reserved(2)]
    by (intro ball_update_first[OF borrowed_reserved(4)]) (simp_all add: referenced_def)
next
  case (reservation_added bid b0 sid)
  then show ?thesis using assms(2) find_key_mem[OF reservation_added(2)] unfolding referenced_def
    by auto
next
  case (reservation_cancelled rid sid r t)
  have recs: "borrowing_records_data s' =
      update_first (\<lambda>rec. r_id rec = rid \<and> student_id rec = sid)
        (\<lambda>_. r\<lparr>status := ''cancelled'', return_date := Some t\<rparr>) (borrowing_records_data s)"
    and bks: "books_data s' = books_data s"
    using reservation_cancelled(1) by simp_all
  show ?thesis unfolding referenced_def recs bks using assms(2)
    by (intro ball_update_first[OF reservation_cancelled(2)])
      (simp_all add: referenced_def non_terminal_def)
next
  case (record_returned rid r b0 t)
  have ids: "map b_id (books_data s') = map b_id (books_data s)"
    using record_returned(1) by (simp add: map_update_first_found[OF record_returned(4)])
  have recs: "borrowing_records_data s' =
      update_first (\<lambda>rec. r_id rec = rid)
        (\<lambda>_. r\<lparr>return_date := Some t, status := ''returned''\<rparr>) (borrowing_records_data s)"
    using record_returned(1) by simp
  show ?thesis unfolding referenced_def ids recs using assms(2)
    by (intro ball_update_first[OF record_returned(2)])
      (simp_all add: referenced_def non_terminal_def)
qed

subsection \<open>One non-terminal record for a student and a book\<close>

lemma count_update_first_le:
  assumes "find P xs = Some x" and "Q (f x) \<Longrightarrow> Q x"
  shows "length (filter Q (update_first P f xs)) \<le> length (filter Q xs)"
  using count_update_first[OF assms(1), of Q f] assms(2) by (auto split: if_splits)

lemma count_update_first_eq:
  assumes "find P xs = Some x" and "Q (f x) = Q x"
  shows "length (filter Q (update_first P f xs)) = length (filter Q xs)"
  using count_update_first[OF assms(1), of Q f] assms(2) by (auto split: if_splits)

lemma effect_pair_unique:
  assumes "effect s s'" and inv: "\<And>sid bid. active_for (borrowing_records_data s) sid bid \<le> 1"
  shows "active_for (borrowing_records_data s') sid' bid' \<le> 1"
  using assms(1)
proof (cases rule: effect.cases)
  case no_change
  then show ?thesis using inv by simp
next
  case (book_added nb)
  then show ?thesis using inv by simp
next
  case (book_updated bid b0 b1)
  then show ?thesis using inv by simp
next
  case (book_deleted bid)
  then show ?thesis using inv by simp
next
  case (borrowed_fresh bid b0 sid t due)
  then show ?thesis using inv[of sid' bid']
    by (auto simp: active_for_def non_terminal_def)
next
  case (borrowed_reserved bid b0 sid er due t)
  let ?Q = "\<lambda>rec. student_id rec = sid' \<and> book_id rec = bid' \<and> non_terminal rec"
  have "length (filter ?Q (update_first
            (\<lambda>rec. student_id rec = sid \<and> book_id rec = bid \<and> non_terminal rec)
            (\<lambda>_. er\<lparr>status := ''borrowed'', borrow_date := Some t, due_date := Some due\<rparr>)
            (borrowing_records_data s)))
        = length (filter ?Q (borrowing_records_data s))"
    using find_Some_holds[OF borrowed_reserved(4)]
    by (intro count_update_first_eq[OF borrowed_reserved(4)]) (simp add: non_terminal_def)
  then show ?thesis using inv[of sid' bid'] unfolding borrowed_reserved(1)
    by (simp add: active_for_def)
next
  case (reservation_added bid b0 sid)
  then show ?thesis using inv[of sid' bid']
    by (auto simp: active_for_def non_terminal_def)
next
  case (reservation_cancelled rid sid r t)
  let ?Q = "\<lambda>rec. student_id rec = sid' \<and> book_id rec = bid' \<and> non_terminal rec"
  have "length (filter ?Q (update_first (\<lambda>rec. r_id rec = rid \<and> student_id rec = sid)
            (\<lambda>_. r\<lparr>status := ''cancelled'', return_date := Some t\<rparr>)
            (borrowing_records_data s)))
        \<le> length (filter ?Q (borrowing_records_data s))"
    by (rule count_update_first_le[OF reservation_cancelled(2)]) (simp add: non_terminal_def)
  then show ?thesis using inv[of sid' bid'] unfolding reservation_cancelled(1)
    by (simp add: active_for_def)
next
  case (record_returned rid r b0 t)
  let ?Q = "\<lambda>rec. student_id rec = sid' \<and> book_id rec = bid' \<and> non_terminal rec"
  have "length (filter ?Q (update_first (\<lambda>rec. r_id rec = rid)
            (\<lambda>_. r\<lparr>return_date := Some t, status := ''returned''\<rparr>)
            (borrowing_records_data s)))
        \<le> length (filter ?Q (borrowing_records_data s))"
    by (rule count_update_first_le[OF record_returned(2)]) (simp add: non_terminal_def)
  then show ?thesis using inv[of sid' bid'] unfolding record_returned(1)
    by (simp add: active_for_def)
qed

subsection \<open>At most three borrowed records for a student\<close>

lemma effect_within_limit:
  assumes "effect s s'" and inv: "\<And>sid. borrowed_by (borrowing_records_data s) sid \<le> 3"
  shows "borrowed_by (borrowing_records_data s') sid' \<le> 3"
  using assms(1)
proof (cases rule: effect.cases)
  case no_change
  then show ?thesis using inv by simp
next
  case (book_added nb)
  then show ?thesis using inv by simp
next
  case (book_updated bid b0 b1)
  then show ?thesis using inv by simp
next
  case (book_deleted bid)
  then show ?thesis using inv by simp
next
  case (borrowed_fresh bid b0 sid t due)
  then show ?thesis using inv[of sid']
    by (auto simp: borrowed_by_def)
next
  case (borrowed_reserved bid b0 sid er due t)
  let ?Q = "\<lambda>rec. student_id rec = sid' \<and> status rec = ''borrowed''"
  let ?er = "er\<lparr>status := ''borrowed'', borrow_date := Some t, due_date := Some due\<rparr>"
  have sid: "student_id er = sid" using find_Some_holds[OF borrowed_reserved(4)] by simp
  have "length (filter ?Q (borrowing_records_data s')) + (if ?Q er then 1 else 0)
        = length (filter ?Q (borrowing_records_data s)) + (if ?Q ?er then 1 else 0)"
    unfolding borrowed_reserved(1)
    using count_update_first[OF borrowed_reserved(4), of ?Q "\<lambda>_. ?er"] by simp
  then show ?thesis using inv[of sid'] borrowed_reserved(3,5) sid
    by (auto simp: borrowed_by_def split: if_splits)
next
  case (reservation_added bid b0 sid)
  then show ?thesis using inv[of sid']
    by (auto simp: borrowed_by_def)
next
  case (reservation_cancelled rid sid r t)
  let ?Q = "\<lambda>rec. student_id rec = sid' \<and> status rec = ''borrowed''"
  have "length (filter ?Q (update_first (\<lambda>rec. r_id rec = rid \<and> student_id rec = sid)
            (\<lambda>_. r\<lparr>status := ''cancelled'', return_date := Some t\<rparr>)
            (borrowing_records_data s)))
        \<le> length (filter ?Q (borrowing_records_data s))"
    by (rule count_update_first_le[OF reservation_cancelled(2)]) simp
  then show ?thesis using inv[of sid'] unfolding reservation_cancelled(1)
    by (simp add: borrowed_by_def)
next
  case (record_returned rid r b0 t)
  let ?Q = "\<lambda>rec. student_id rec = sid' \<and> status rec = ''borrowed''"
  have "length (filter ?Q (update_first (\<lambda>rec. r_id rec = rid)
            (\<lambda>_. r\<lparr>return_date := Some t, status := ''returned''\<rparr>)
            (borrowing_records_data s)))
        \<le> length (filter ?Q (borrowing_records_data s))"
    by (rule count_update_first_le[OF record_returned(2)]) simp
  then show ?thesis using inv[of sid'] unfolding record_returned(1)
    by (simp add: borrowed_by_def)
qed

subsection \<open>Copy counts\<close>

lemma borrowed_for_book_append:
  "borrowed_for_book (recs @ [r]) x =
     borrowed_for_book recs x + (if book_id r = x \<and> status r = ''borrowed'' then 1 else 0)"
  by (simp add: borrowed_for_book_def)

lemma borrowed_for_book_update:
  assumes "find P recs = Some r"
  shows "borrowed_for_book (update_first P (\<lambda>_. r') recs) x
           + (if book_id r = x \<and> status r = ''borrowed'' then 1 else 0)
         = borrowed_for_book recs x
           + (if book_id r' = x \<and> status r' = ''borrowed'' then 1 else 0)"
  unfolding borrowed_for_book_def
  using count_update_first[OF assms, of "\<lambda>rec. book_id rec = x \<and> status rec = ''borrowed''" "\<lambda>_. r'"]
  by simp

lemma copies_ok_updated_book:
  assumes ok: "copies_ok books recs" and d: "distinct (map b_id books)"
    and f: "find (\<lambda>b. b_id b = bid) books = Some b0"
    and id: "b_id (g b0) = bid"
    and new: "available_copies (g b0) = total_copies (g b0) - int (borrowed_for_book recs' bid)"
    and others: "\<And>x. x \<noteq> bid \<Longrightarrow> borrowed_for_book recs' x = borrowed_for_book recs x"
  shows "copies_ok (update_first (\<lambda>b. b_id b = bid) g books) recs'"
  unfolding copies_ok_def
proof
  fix b assume "b \<in> set (update_first (\<lambda>b. b_id b = bid) g books)"
  from set_update_first_key[OF d f this]
  show "available_copies b = total_copies b - int (borrowed_for_book recs' (b_id b))"
  proof
    assume "b = g b0"
    then show ?thesis using id new by simp
  next
    assume "b \<in> set books \<and> b_id b \<noteq> bid"
    then show ?thesis using ok others by (simp add: copies_ok_def)
  qed
qed

lemma copies_ok_same_counts:
  assumes "copies_ok books recs" and "\<And>x. borrowed_for_book recs' x = borrowed_for_book recs x"
  shows "copies_ok books recs'"
  using assms by (simp add: copies_ok_def)

lemma effect_copies:
  assumes "effect s s'"
    and d: "distinct (map b_id (books_data s))"
    and dt: "dated s" and rf: "referenced s"
    and ok: "copies_ok (books_data s) (borrowing_records_data s)"
  shows "copies_ok (books_data s') (borrowing_records_data s')"
  using assms(1)
proof (cases rule: effect.cases)
  case no_change
  then show ?thesis using ok by simp
next
  case (book_added nb)
  have "filter (\<lambda>rec. book_id rec = b_id nb \<and> status rec = ''borrowed'') (borrowing_records_data s) = []"
  proof (rule ccontr)
    assume "\<not> ?thesis"
    then obtain rec where r: "rec \<in> set (borrowing_records_data s)" "book_id rec = b_id nb"
      "status rec = ''borrowed''" by (auto simp: filter_empty_conv)
    then have "non_terminal rec" by (simp add: non_terminal_def)
    then have "book_id rec \<in> set (map b_id (books_data s))"
      using rf r(1) unfolding referenced_def by blast
    then show False using get_next_id_notin[of "map b_id (books_data s)"] r(2) book_added(2)
      by simp
  qed
  then have "borrowed_for_book (borrowing_records_data s) (b_id nb) = 0"
    by (simp add: borrowed_for_book_def)
  then show ?thesis using ok book_added by (auto simp: copies_ok_def)
next
  case (book_updated bid b0 b1)
  have b0: "b0 \<in> set (books_data s)" "b_id b0 = bid"
    using find_Some_holds[OF book_updated(2)] by simp_all
  have "copies_ok (update_first (\<lambda>b. b_id b = bid) (\<lambda>_. b1) (books_data s)) (borrowing_records_data s)"
  proof (rule copies_ok_updated_book[OF ok d book_updated(2)])
    show "b_id b1 = bid" by (rule book_updated(3))
    show "available_copies b1 = total_copies b1 - int (borrowed_for_book (borrowing_records_data s) bid)"
      using ok b0 book_updated(4) by (simp add: copies_ok_def)
  qed simp
  then show ?thesis using book_updated(1) by simp
next
  case (book_deleted bid)
  then show ?thesis using ok set_remove_first[of "\<lambda>b. b_id b = bid" "books_data s"]
    by (auto simp: copies_ok_def)
next
  case (borrowed_fresh bid b0 sid t due)
  let ?new = "\<lparr>r_id = get_next_id (map r_id (borrowing_records_data s)), student_id = sid,
     book_id = bid, borrow_date = Some t, due_date = Some due, return_date = None,
     status = ''borrowed''\<rparr>"
  have b0: "b0 \<in> set (books_data s)" "b_id b0 = bid"
    using find_Some_holds[OF borrowed_fresh(2)] by simp_all
  have "copies_ok (update_first (\<lambda>b. b_id b = bid)
          (\<lambda>b. b\<lparr>available_copies := available_copies b - 1\<rparr>) (books_data s))
          (borrowing_records_data s @ [?new])"
  proof (rule copies_ok_updated_book[OF ok d borrowed_fresh(2)])
    show "b_id (b0\<lparr>available_copies := available_copies b0 - 1\<rparr>) = bid" using b0 by simp
    show "available_copies (b0\<lparr>available_copies := available_copies b0 - 1\<rparr>) =
          total_copies (b0\<lparr>available_copies := available_copies b0 - 1\<rparr>)
            - int (borrowed_for_book (borrowing_records_data s @ [?new]) bid)"
      using ok b0 by (simp add: copies_ok_def borrowed_for_book_append)
    show "\<And>x. x \<noteq> bid \<Longrightarrow> borrowed_for_book (borrowing_records_data s @ [?new]) x
            = borrowed_for_book (borrowing_records_data s) x"
      by (simp add: borrowed_for_book_append)
  qed
  then show ?thesis using borrowed_fresh(1) by simp
next
  case (borrowed_reserved bid b0 sid er due t)
  let ?P = "\<lambda>rec. student_id rec = sid \<and> book_id rec = bid \<and> non_terminal rec"
  let ?er = "er\<lparr>status := ''borrowed'', borrow_date := Some t, due_date := Some due\<rparr>"
  have b0: "b0 \<in> set (books_data s)" "b_id b0 = bid"
    using find_Some_holds[OF borrowed_reserved(2)] by simp_all
  have er: "book_id er = bid" using find_Some_holds[OF borrowed_reserved(4)] by simp
  have cnt: "borrowed_for_book (update_first ?P (\<lambda>_. ?er) (borrowing_records_data s)) x
      = borrowed_for_book (borrowing_records_data s) x + (if x = bid then 1 else 0)" for x
    using borrowed_for_book_update[OF borrowed_reserved(4), of ?er x] borrowed_reserved(5) er
    by (simp split: if_splits)
  have "copies_ok (update_first (\<lambda>b. b_id b = bid)
          (\<lambda>b. b\<lparr>available_copies := available_copies b - 1\<rparr>) (books_data s))
          (update_first ?P (\<lambda>_. ?er) (borrowing_records_data s))"
  proof (rule copies_ok_updated_book[OF ok d borrowed_reserved(2)])
    show "b_id (b0\<lparr>available_copies := available_copies b0 - 1\<rparr>) = bid" using b0 by simp
    show "available_copies (b0\<lparr>available_copies := available_copies b0 - 1\<rparr>) =
          total_copies (b0\<lparr>available_copies := available_copies b0 - 1\<rparr>)
            - int (borrowed_for_book (update_first ?P (\<lambda>_. ?er) (borrowing_records_data s)) bid)"
      using ok b0 by (simp add: copies_ok_def cnt)
    show "\<And>x. x \<noteq> bid \<Longrightarrow> borrowed_for_book (update_first ?P (\<lambda>_. ?er) (borrowing_records_data s)) x
            = borrowed_for_book (borrowing_records_data s) x"
      by (simp add: cnt)
  qed
  then show ?thesis using borrowed_reserved(1) by simp
next
  case (reservation_added bid b0 sid)
  then show ?thesis using ok
    by (auto intro!: copies_ok_same_counts[OF ok] simp: borrowed_for_book_append)
next
  case (reservation_cancelled rid sid r t)
  let ?r = "r\<lparr>status := ''cancelled'', return_date := Some t\<rparr>"
  have "borrowed_for_book (update_first (\<lambda>rec. r_id rec = rid \<and> student_id rec = sid)
            (\<lambda>_. ?r) (borrowing_records_data s)) x
      = borrowed_for_book (borrowing_records_data s) x" for x
    using borrowed_for_book_update[OF reservation_cancelled(2), of ?r x] reservation_cancelled(3)
    by (simp split: if_splits)
  then show ?thesis using reservation_cancelled(1) copies_ok_same_counts[OF ok] by simp
next
  case (record_returned rid r b0 t)
  let ?r = "r\<lparr>return_date := Some t, status := ''returned''\<rparr>"
  let ?recs = "update_first (\<lambda>rec. r_id rec = rid) (\<lambda>_. ?r) (borrowing_records_data s)"
  have b0: "b0 \<in> set (books_data s)" "b_id b0 = book_id r"
    using find_Some_holds[OF record_returned(4)] by simp_all
  have r: "r \<in> set (borrowing_records_data s)"
    using find_Some_holds[OF record_returned(2)] by simp
  have upd: "\<And>x. borrowed_for_book ?recs x + (if book_id r = x \<and> status r = ''borrowed'' then 1 else 0)
      = borrowed_for_book (borrowing_records_data s) x"
    using borrowed_for_book_update[OF record_returned(2), of ?r] by simp
  show ?thesis
  proof (cases "status r = ''borrowed''")
    case True
    then have bd: "borrow_date r \<noteq> None" using dt r by (auto simp: dated_def)
    have "copies_ok (update_first (\<lambda>b. b_id b = book_id r)
          (\<lambda>b. b\<lparr>available_copies := available_copies b + 1\<rparr>) (books_data s)) ?recs"
    proof (rule copies_ok_updated_book[OF ok d record_returned(4)])
      show "b_id (b0\<lparr>available_copies := available_copies b0 + 1\<rparr>) = book_id r" using b0 by simp
      show "available_copies (b0\<lparr>available_copies := available_copies b0 + 1\<rparr>) =
          total_copies (b0\<lparr>available_copies := available_copies b0 + 1\<rparr>)
            - int (borrowed_for_book ?recs (book_id r))"
        using ok b0 upd[of "book_id r"] True by (simp add: copies_ok_def)
      show "borrowed_for_book ?recs x = borrowed_for_book (borrowing_records_data s) x"
        if "x \<noteq> book_id r" for x
        using upd[of x] that by (simp split: if_splits)
    qed
    then show ?thesis using record_returned(1) bd by simp
  next
    case False
    then have "status r = ''reserved''" using record_returned(3) by (simp add: non_terminal_def)
    then have bd: "borrow_date r = None" using dt r by (auto simp: dated_def)
    have "borrowed_for_book ?recs x = borrowed_for_book (borrowing_records_data s) x" for x
      using upd[of x] False by (simp split: if_splits)
    then show ?thesis using record_returned(1) bd copies_ok_same_counts[OF ok] by simp
  qed
qed

section \<open>Reachable states are consistent\<close>

lemma consistent_init: "consistent init_state"
  by (simp add: consistent_def init_state_def dated_def referenced_def copies_ok_def
      active_for_def borrowed_by_def)

lemma consistent_effect:
  assumes "effect s s'" and "consistent s"
  shows "consistent s'"
proof -
  from assms(2) have d: "distinct (map b_id (books_data s))"
    and dr: "distinct (map r_id (borrowing_records_data s))"
    and dt: "dated s" and rf: "referenced s"
    and ok: "copies_ok (books_data s) (borrowing_records_data s)"
    and pu: "\<And>sid bid. active_for (borrowing_records_data s) sid bid \<le> 1"
    and lim: "\<And>sid. borrowed_by (borrowing_records_data s) sid \<le> 3"
    by (simp_all add: consistent_def)
  show ?thesis unfolding consistent_def
    using effect_distinct_books[OF assms(1) d] effect_distinct_records[OF assms(1) dr]
      effect_dated[OF assms(1) dt] effect_referenced[OF assms(1) rf]
      effect_copies[OF assms(1) d dt rf ok] effect_pair_unique[OF assms(1) pu]
      effect_within_limit[OF assms(1) lim]
    by blast
qed

lemma consistent_handle: "consistent s \<Longrightarrow> consistent (snd (handle a s))"
  by (rule consistent_effect[OF handle_effect])

lemma consistent_run: "consistent s \<Longrightarrow> consistent (run acts s)"
  by (induction acts arbitrary: s) (simp_all add: consistent_handle)

lemma consistent_reachable: "consistent (run acts init_state)"
  by (rule consistent_run[OF consistent_init])

section \<open>The concrete runs\<close>

lemma due_monday_2024_01_01: "calculate_due_date monday_2024_01_01 4 = due_2024_01_29"
proof -
  have "weekday monday_2024_01_01 = 0" by (simp add: weekday_def monday_2024_01_01_def)
  from due_date_loop_monday[OF this] show ?thesis
    by (simp add: calculate_due_date_def add_days_def monday_2024_01_01_def due_2024_01_29_def)
qed

lemmas request_defs =
  init_state_def register_user_def add_book_def borrow_book_def reserve_book_def
  return_book_def role_required_def login_required_def
  librarian_headers_def student_headers_def stored_year_def non_terminal_def Let_def
  get_next_id_def the_librarian_def the_student_def dune_def emma_def ulysses_def walden_def
  loan_def dune_reservation_def due_monday_2024_01_01

lemma run_append: "run (xs @ ys) s = run ys (run xs s)"
  by (induction xs arbitrary: s) simp_all

lemma run_setup_requests: "run setup_requests init_state = setup_state"
  by (simp add: setup_requests_def setup_state_def request_defs)

lemma run_borrow_requests: "run borrow_requests init_state = borrowed_state"
  by (simp add: borrow_requests_def run_append run_setup_requests)
    (simp add: setup_state_def borrowed_state_def request_defs)

lemma run_return_requests: "run return_requests init_state = returned_state"
  by (simp add: return_requests_def run_append run_borrow_requests)
    (simp add: returned_state_def borrowed_state_def request_defs)

lemma run_reserve_requests: "run reserve_requests init_state = reserved_state"
  by (simp add: reserve_requests_def run_append run_setup_requests)
    (simp add: setup_state_def reserved_state_def request_defs)

lemma run_two_book_requests: "run two_book_requests init_state = two_book_state"
  by (simp add: two_book_requests_def run_append run_setup_requests)
    (simp add: setup_state_def two_book_state_def request_defs)

lemma run_limit_requests: "run limit_requests init_state = limit_state"
  by (simp add: limit_requests_def run_append run_setup_requests)
    (simp add: setup_state_def limit_state_def request_defs)

lemma librarian_logged_in:
  "users_data s = [the_librarian, the_student] \<Longrightarrow>
   role_required ''librarian'' s librarian_headers = Inr the_librarian"
  by (simp add: role_required_def login_required_def librarian_headers_def the_librarian_def)

lemma student_logged_in:
  "users_data s = [the_librarian, the_student] \<Longrightarrow>
   role_required ''student'' s student_headers = Inr the_student"
  by (simp add: role_required_def login_required_def student_headers_def the_librarian_def
      the_student_def)

section \<open>Returning and deleting\<close>

lemma role_required_users:
  "users_data s' = users_data s \<Longrightarrow> role_required r s' h = role_required r s h"
  by (simp add: role_required_def login_required_def split: option.splits)

lemma find_distinct_key:
  "distinct (map k xs) \<Longrightarrow> x \<in> set xs \<Longrightarrow> find (\<lambda>y. k y = k x) xs = Some x"
  by (induction xs) (auto simp: image_iff)

lemma find_None_key: "(find (\<lambda>y. k y = v) xs = None) = (\<forall>y \<in> set xs. k y \<noteq> v)"
  by (induction xs) auto

lemma find_remove_first_key:
  "distinct (map k xs) \<Longrightarrow> find (\<lambda>y. k y = v) xs = Some x
   \<Longrightarrow> set (remove_first (\<lambda>y. k y = v) xs) = set xs - {x}"
proof (induction xs)
  case Nil
  then show ?case by simp
next
  case (Cons a xs)
  show ?case
  proof (cases "k a = v")
    case True
    then have "x = a" using Cons.prems(2) by simp
    moreover have "a \<notin> set xs" using Cons.prems(1) by (auto simp: image_iff)
    ultimately show ?thesis using True by simp
  next
    case False
    then have "x \<noteq> a" using Cons.prems(2) find_Some_holds[of "\<lambda>y. k y = v" xs x] by auto
    then show ?thesis using False Cons by auto
  qed
qed

text \<open>
  C6: a return by a librarian answers 404 "Borrowing record not found" when no record has
  the identifier, and 400 "Book is not currently borrowed or reserved" when the record's
  status is neither borrowed nor reserved, both without changing the state. Otherwise, when
  the book of the record exists, the record gets status returned and the return date
  \<open>now\<close>, and the book's available copies grow by one exactly when the record has a
  borrow date; returning a record with no borrow date leaves the books unchanged.
\<close>

theorem return_book_spec:
  assumes "role_required ''librarian'' s h = Inr u"
  shows "((\<forall>rec \<in> set (borrowing_records_data s). r_id rec \<noteq> borrow_id) \<longrightarrow>
            return_book h borrow_id now s = (Response ''Borrowing record not found'' 404 NoPayload, s))
       \<and> (find (\<lambda>rec. r_id rec = borrow_id) (borrowing_records_data s) = Some record
            \<and> status record \<noteq> ''borrowed'' \<and> status record \<noteq> ''reserved'' \<longrightarrow>
            return_book h borrow_id now s =
              (Response ''Book is not currently borrowed or reserved'' 400 NoPayload, s))
       \<and> (find (\<lambda>rec. r_id rec = borrow_id) (borrowing_records_data s) = Some record
            \<and> (status record = ''borrowed'' \<or> status record = ''reserved'')
            \<and> find (\<lambda>b. b_id b = book_id record) (books_data s) = Some book0 \<longrightarrow>
            fst (return_book h borrow_id now s) =
              Response ''Book returned successfully'' 200
                (RecordPayload (record\<lparr>return_date := Some now, status := ''returned''\<rparr>))
            \<and> borrowing_records_data (snd (return_book h borrow_id now s)) =
                update_first (\<lambda>rec. r_id rec = borrow_id)
                  (\<lambda>_. record\<lparr>return_date := Some now, status := ''returned''\<rparr>)
                  (borrowing_records_data s)
            \<and> find (\<lambda>rec. r_id rec = borrow_id)
                  (borrowing_records_data (snd (return_book h borrow_id now s))) =
                Some (record\<lparr>return_date := Some now, status := ''returned''\<rparr>)
            \<and> find (\<lambda>b. b_id b = book_id record) (books_data (snd (return_book h borrow_id now s))) =
                Some (book0\<lparr>available_copies :=
                         available_copies book0 + (if borrow_date record \<noteq> None then 1 else 0)\<rparr>)
            \<and> (borrow_date record = None \<longrightarrow>
                  books_data (snd (return_book h borrow_id now s)) = books_data s)
            \<and> users_data (snd (return_book h borrow_id now s)) = users_data s)"
proof (intro conjI impI)
  assume "\<forall>rec \<in> set (borrowing_records_data s). r_id rec \<noteq> borrow_id"
  then have "find (\<lambda>rec. r_id rec = borrow_id) (borrowing_records_data s) = None"
    by (simp add: find_None_key)
  then show "return_book h borrow_id now s = (Response ''Borrowing record not found'' 404 NoPayload, s)"
    using assms by (simp add: return_book_def)
next
  assume "find (\<lambda>rec. r_id rec = borrow_id) (borrowing_records_data s) = Some record
            \<and> status record \<noteq> ''borrowed'' \<and> status record \<noteq> ''reserved''"
  then show "return_book h borrow_id now s =
              (Response ''Book is not currently borrowed or reserved'' 400 NoPayload, s)"
    using assms by (simp add: return_book_def non_terminal_def)
next
  assume a: "find (\<lambda>rec. r_id rec = borrow_id) (borrowing_records_data s) = Some record
            \<and> (status record = ''borrowed'' \<or> status record = ''reserved'')
            \<and> find (\<lambda>b. b_id b = book_id record) (books_data s) = Some book0"
  let ?ret = "record\<lparr>return_date := Some now, status := ''returned''\<rparr>"
  have f: "find (\<lambda>rec. r_id rec = borrow_id) (borrowing_records_data s) = Some record"
    and fb: "find (\<lambda>b. b_id b = book_id record) (books_data s) = Some book0"
    and nt: "non_terminal record"
    using a by (auto simp: non_terminal_def)
  have rid: "r_id record = borrow_id" using find_Some_holds[OF f] by simp
  have bid: "b_id book0 = book_id record" using find_Some_holds[OF fb] by simp
  have eq: "return_book h borrow_id now s =
      (Response ''Book returned successfully'' 200 (RecordPayload ?ret),
       s\<lparr>books_data :=
           (if borrow_date record \<noteq> None then
              update_first (\<lambda>b. b_id b = book_id record)
                (\<lambda>b. b\<lparr>available_copies := available_copies b + 1\<rparr>) (books_data s)
            else books_data s),
         borrowing_records_data :=
           update_first (\<lambda>rec. r_id rec = borrow_id) (\<lambda>_. ?ret) (borrowing_records_data s)\<rparr>)"
    using assms f fb nt by (simp add: return_book_def Let_def)
  show "fst (return_book h borrow_id now s) =
          Response ''Book returned successfully'' 200 (RecordPayload ?ret)"
    by (simp add: eq)
  show "borrowing_records_data (snd (return_book h borrow_id now s)) =
          update_first (\<lambda>rec. r_id rec = borrow_id) (\<lambda>_. ?ret) (borrowing_records_data s)"
    by (simp add: eq)
  show "find (\<lambda>rec. r_id rec = borrow_id)
          (borrowing_records_data (snd (return_book h borrow_id now s))) = Some ?ret"
    using find_update_first[OF f, of "\<lambda>_. ?ret"] rid by (simp add: eq)
  show "find (\<lambda>b. b_id b = book_id record) (books_data (snd (return_book h borrow_id now s))) =
          Some (book0\<lparr>available_copies :=
                   available_copies book0 + (if borrow_date record \<noteq> None then 1 else 0)\<rparr>)"
    using find_update_first[OF fb, of "\<lambda>b. b\<lparr>available_copies := available_copies b + 1\<rparr>"] bid fb
    by (simp add: eq)
  show "borrow_date record = None \<Longrightarrow>
          books_data (snd (return_book h borrow_id now s)) = books_data s"
    by (simp add: eq)
  show "users_data (snd (return_book h borrow_id now s)) = users_data s"
    by (simp add: eq)
qed

theorem return_book_spec_witness:
  "role_required ''librarian'' borrowed_state librarian_headers = Inr the_librarian
   \<and> find (\<lambda>rec. r_id rec = 1) (borrowing_records_data borrowed_state) = Some (loan 1 1)
   \<and> status (loan 1 1) = ''borrowed''
   \<and> find (\<lambda>b. b_id b = book_id (loan 1 1)) (books_data borrowed_state)
       = Some (dune\<lparr>available_copies := 0\<rparr>)
   \<and> fst (return_book librarian_headers 1 tuesday_2024_01_02 borrowed_state)
       = Response ''Book returned successfully'' 200
           (RecordPayload ((loan 1 1)\<lparr>return_date := Some tuesday_2024_01_02,
                                      status := ''returned''\<rparr>))
   \<and> find (\<lambda>b. b_id b = 1)
        (books_data (snd (return_book librarian_headers 1 tuesday_2024_01_02 borrowed_state)))
       = Some dune
   \<and> borrowing_records_data setup_state = []
   \<and> return_book librarian_headers 7 tuesday_2024_01_02 setup_state
       = (Response ''Borrowing record not found'' 404 NoPayload, setup_state)
   \<and> find (\<lambda>rec. r_id rec = 1) (borrowing_records_data returned_state)
       = Some ((loan 1 1)\<lparr>return_date := Some tuesday_2024_01_02, status := ''returned''\<rparr>)
   \<and> return_book librarian_headers 1 tuesday_2024_01_02 returned_state
       = (Response ''Book is not currently borrowed or reserved'' 400 NoPayload, returned_state)
   \<and> find (\<lambda>rec. r_id rec = 1) (borrowing_records_data reserved_state) = Some dune_reservation
   \<and> borrow_date dune_reservation = None
   \<and> books_data (snd (return_book librarian_headers 1 tuesday_2024_01_02 reserved_state))
       = books_data reserved_state"
proof -
  let ?ret = "(loan 1 1)\<lparr>return_date := Some tuesday_2024_01_02, status := ''returned''\<rparr>"
  have a1: "role_required ''librarian'' borrowed_state librarian_headers = Inr the_librarian"
    by (rule librarian_logged_in) (simp add: borrowed_state_def)
  have a2: "find (\<lambda>rec. r_id rec = 1) (borrowing_records_data borrowed_state) = Some (loan 1 1)"
    by (simp add: borrowed_state_def loan_def)
  have a3: "status (loan 1 1) = ''borrowed''" "borrow_date (loan 1 1) \<noteq> None"
    "book_id (loan 1 1) = 1" by (simp_all add: loan_def)
  have a4: "find (\<lambda>b. b_id b = book_id (loan 1 1)) (books_data borrowed_state)
      = Some (dune\<lparr>available_copies := 0\<rparr>)"
    by (simp add: borrowed_state_def loan_def dune_def)
  have a5: "dune\<lparr>available_copies := 1\<rparr> = dune" by (simp add: dune_def)
  have b1: "role_required ''librarian'' setup_state librarian_headers = Inr the_librarian"
    by (rule librarian_logged_in) (simp add: setup_state_def)
  have b2: "\<forall>rec \<in> set (borrowing_records_data setup_state). r_id rec \<noteq> 7"
    by (simp add: setup_state_def)
  have c1: "role_required ''librarian'' returned_state librarian_headers = Inr the_librarian"
    by (rule librarian_logged_in) (simp add: returned_state_def)
  have c2: "find (\<lambda>rec. r_id rec = 1) (borrowing_records_data returned_state) = Some ?ret"
    by (simp add: returned_state_def loan_def)
  have d1: "role_required ''librarian'' reserved_state librarian_headers = Inr the_librarian"
    by (rule librarian_logged_in) (simp add: reserved_state_def)
  have d2: "find (\<lambda>rec. r_id rec = 1) (borrowing_records_data reserved_state)
      = Some dune_reservation"
    by (simp add: reserved_state_def dune_reservation_def)
  have d3: "status dune_reservation = ''reserved''" "borrow_date dune_reservation = None"
    by (simp_all add: dune_reservation_def)
  have d4: "find (\<lambda>b. b_id b = book_id dune_reservation) (books_data reserved_state) = Some dune"
    by (simp add: reserved_state_def dune_reservation_def dune_def)
  from return_book_spec[OF a1, of 1 tuesday_2024_01_02 "loan 1 1" "dune\<lparr>available_copies := 0\<rparr>"]
    a2 a3 a4 a5
  have A: "fst (return_book librarian_headers 1 tuesday_2024_01_02 borrowed_state)
       = Response ''Book returned successfully'' 200 (RecordPayload ?ret)"
    "find (\<lambda>b. b_id b = 1)
       (books_data (snd (return_book librarian_headers 1 tuesday_2024_01_02 borrowed_state)))
       = Some dune"
    by simp_all
  from return_book_spec[OF b1, of 7 tuesday_2024_01_02] b2
  have B: "return_book librarian_headers 7 tuesday_2024_01_02 setup_state
       = (Response ''Borrowing record not found'' 404 NoPayload, setup_state)"
    by simp
  from return_book_spec[OF c1, of 1 tuesday_2024_01_02 ?ret] c2
  have C: "return_book librarian_headers 1 tuesday_2024_01_02 returned_state
       = (Response ''Book is not currently borrowed or reserved'' 400 NoPayload, returned_state)"
    by simp
  from return_book_spec[OF d1, of 1 tuesday_2024_01_02 dune_reservation dune] d2 d3 d4
  have D: "books_data (snd (return_book librarian_headers 1 tuesday_2024_01_02 reserved_state))
       = books_data reserved_state"
    by simp
  have b3: "borrowing_records_data setup_state = []" by (simp add: setup_state_def)
  show ?thesis using a1 a2 a3(1) a4 A b3 B c2 C d2 d3(2) D by simp
qed

text \<open>
  C7: in a reachable state, a return (by a librarian) of a record whose status is returned
  answers 400 "Book is not currently borrowed or reserved" and leaves the whole state, users,
  books and records, as it was.
\<close>

theorem return_returned_record:
  assumes "role_required ''librarian'' (run acts init_state) h = Inr u"
    and "rec \<in> set (borrowing_records_data (run acts init_state))"
    and "status rec = ''returned''"
  shows "return_book h (r_id rec) now (run acts init_state) =
           (Response ''Book is not currently borrowed or reserved'' 400 NoPayload,
            run acts init_state)"
proof -
  have "distinct (map r_id (borrowing_records_data (run acts init_state)))"
    using consistent_reachable[of acts] by (simp add: consistent_def)
  then have "find (\<lambda>x. r_id x = r_id rec) (borrowing_records_data (run acts init_state)) = Some rec"
    using assms(2) by (rule find_distinct_key)
  then show ?thesis using assms(1,3) by (simp add: return_book_def non_terminal_def)
qed

theorem return_returned_record_witness:
  "role_required ''librarian'' (run return_requests init_state) librarian_headers = Inr the_librarian
   \<and> (loan 1 1)\<lparr>return_date := Some tuesday_2024_01_02, status := ''returned''\<rparr>
       \<in> set (borrowing_records_data (run return_requests init_state))
   \<and> return_book librarian_headers 1 monday_2024_01_01 (run return_requests init_state) =
       (Response ''Book is not currently borrowed or reserved'' 400 NoPayload,
        run return_requests init_state)"
proof -
  let ?rec = "(loan 1 1)\<lparr>return_date := Some tuesday_2024_01_02, status := ''returned''\<rparr>"
  have h1: "role_required ''librarian'' (run return_requests init_state) librarian_headers
      = Inr the_librarian"
    unfolding run_return_requests by (rule librarian_logged_in) (simp add: returned_state_def)
  have h2: "?rec \<in> set (borrowing_records_data (run return_requests init_state))"
    by (simp add: run_return_requests returned_state_def)
  have h3: "status ?rec = ''returned''" by simp
  have "r_id ?rec = 1" by (simp add: loan_def)
  then show ?thesis using return_returned_record[OF h1 h2 h3, of monday_2024_01_01] h1 h2 by simp
qed

text \<open>
  C10: in a reachable state, deleting an existing book (as a librarian) answers 400 "Cannot
  delete book: active borrowing or reservation records exist" and changes nothing while some
  record of that book is reserved or borrowed. When no record of the book is reserved or
  borrowed (each one has been cancelled or returned), the deletion answers 200 and removes
  the book: it is the only entry that leaves the table, and no book with that identifier
  remains.
\<close>

theorem delete_book_spec:
  assumes "role_required ''librarian'' (run acts init_state) h = Inr u"
    and "find (\<lambda>b. b_id b = bid) (books_data (run acts init_state)) = Some book0"
  shows "((\<exists>rec \<in> set (borrowing_records_data (run acts init_state)).
             book_id rec = bid \<and> (status rec = ''reserved'' \<or> status rec = ''borrowed'')) \<longrightarrow>
           delete_book h bid (run acts init_state) =
             (Response ''Cannot delete book: active borrowing or reservation records exist'' 400
                NoPayload, run acts init_state))
       \<and> ((\<forall>rec \<in> set (borrowing_records_data (run acts init_state)).
              book_id rec = bid \<longrightarrow> status rec \<noteq> ''reserved'' \<and> status rec \<noteq> ''borrowed'') \<longrightarrow>
           fst (delete_book h bid (run acts init_state)) =
             Response ''Book deleted successfully'' 200 NoPayload
           \<and> set (books_data (snd (delete_book h bid (run acts init_state)))) =
               set (books_data (run acts init_state)) - {book0}
           \<and> (\<forall>b \<in> set (books_data (snd (delete_book h bid (run acts init_state)))). b_id b \<noteq> bid)
           \<and> borrowing_records_data (snd (delete_book h bid (run acts init_state))) =
               borrowing_records_data (run acts init_state)
           \<and> users_data (snd (delete_book h bid (run acts init_state))) =
               users_data (run acts init_state))"
proof (intro conjI impI)
  let ?s = "run acts init_state"
  assume "\<exists>rec \<in> set (borrowing_records_data ?s).
             book_id rec = bid \<and> (status rec = ''reserved'' \<or> status rec = ''borrowed'')"
  then have "filter (\<lambda>rec. book_id rec = bid \<and> non_terminal rec) (borrowing_records_data ?s) \<noteq> []"
    by (auto simp: filter_empty_conv non_terminal_def)
  then show "delete_book h bid ?s =
             (Response ''Cannot delete book: active borrowing or reservation records exist'' 400
                NoPayload, ?s)"
    using assms by (simp add: delete_book_def Let_def)
next
  let ?s = "run acts init_state"
  assume "\<forall>rec \<in> set (borrowing_records_data ?s).
              book_id rec = bid \<longrightarrow> status rec \<noteq> ''reserved'' \<and> status rec \<noteq> ''borrowed''"
  then have "filter (\<lambda>rec. book_id rec = bid \<and> non_terminal rec) (borrowing_records_data ?s) = []"
    by (auto simp: filter_empty_conv non_terminal_def)
  then have eq: "delete_book h bid ?s =
      (Response ''Book deleted successfully'' 200 NoPayload,
       ?s\<lparr>books_data := remove_first (\<lambda>b. b_id b = bid) (books_data ?s)\<rparr>)"
    using assms by (simp add: delete_book_def Let_def)
  have d: "distinct (map b_id (books_data ?s))"
    using consistent_reachable[of acts] by (simp add: consistent_def)
  show "fst (delete_book h bid ?s) = Response ''Book deleted successfully'' 200 NoPayload"
    by (simp add: eq)
  show "set (books_data (snd (delete_book h bid ?s))) = set (books_data ?s) - {book0}"
    using find_remove_first_key[OF d assms(2)] by (simp add: eq)
  show "\<forall>b \<in> set (books_data (snd (delete_book h bid ?s))). b_id b \<noteq> bid"
    using remove_first_key[OF d] by (simp add: eq)
  show "borrowing_records_data (snd (delete_book h bid ?s)) = borrowing_records_data ?s"
    by (simp add: eq)
  show "users_data (snd (delete_book h bid ?s)) = users_data ?s"
    by (simp add: eq)
qed

theorem delete_book_spec_witness:
  "role_required ''librarian'' (run reserve_requests init_state) librarian_headers = Inr the_librarian
   \<and> find (\<lambda>b. b_id b = 1) (books_data (run reserve_requests init_state)) = Some dune
   \<and> (\<exists>rec \<in> set (borrowing_records_data (run reserve_requests init_state)).
         book_id rec = 1 \<and> (status rec = ''reserved'' \<or> status rec = ''borrowed''))
   \<and> delete_book librarian_headers 1 (run reserve_requests init_state) =
       (Response ''Cannot delete book: active borrowing or reservation records exist'' 400
          NoPayload, run reserve_requests init_state)
   \<and> role_required ''librarian'' (run return_requests init_state) librarian_headers = Inr the_librarian
   \<and> find (\<lambda>b. b_id b = 1) (books_data (run return_requests init_state)) = Some dune
   \<and> borrowing_records_data (run return_requests init_state) =
       [(loan 1 1)\<lparr>return_date := Some tuesday_2024_01_02, status := ''returned''\<rparr>]
   \<and> fst (delete_book librarian_headers 1 (run return_requests init_state)) =
       Response ''Book deleted successfully'' 200 NoPayload
   \<and> set (books_data (snd (delete_book librarian_headers 1 (run return_requests init_state)))) = {}"
proof -
  let ?v = "run reserve_requests init_state" and ?r = "run return_requests init_state"
  have a1: "role_required ''librarian'' ?v librarian_headers = Inr the_librarian"
    unfolding run_reserve_requests by (rule librarian_logged_in) (simp add: reserved_state_def)
  have a2: "find (\<lambda>b. b_id b = 1) (books_data ?v) = Some dune"
    by (simp add: run_reserve_requests reserved_state_def dune_def)
  have a3: "\<exists>rec \<in> set (borrowing_records_data ?v).
         book_id rec = 1 \<and> (status rec = ''reserved'' \<or> status rec = ''borrowed'')"
    by (simp add: run_reserve_requests reserved_state_def dune_reservation_def)
  have b1: "role_required ''librarian'' ?r librarian_headers = Inr the_librarian"
    unfolding run_return_requests by (rule librarian_logged_in) (simp add: returned_state_def)
  have b2: "find (\<lambda>b. b_id b = 1) (books_data ?r) = Some dune"
    by (simp add: run_return_requests returned_state_def dune_def)
  have b3: "\<forall>rec \<in> set (borrowing_records_data ?r).
         book_id rec = 1 \<longrightarrow> status rec \<noteq> ''reserved'' \<and> status rec \<noteq> ''borrowed''"
    by (simp add: run_return_requests returned_state_def)
  have b4: "set (books_data ?r) - {dune} = {}"
    by (simp add: run_return_requests returned_state_def)
  from delete_book_spec[OF a1 a2] a3
  have A: "delete_book librarian_headers 1 ?v =
       (Response ''Cannot delete book: active borrowing or reservation records exist'' 400
          NoPayload, ?v)" by blast
  from delete_book_spec[OF b1 b2] b3 b4
  have B: "fst (delete_book librarian_headers 1 ?r) =
       Response ''Book deleted successfully'' 200 NoPayload"
    "set (books_data (snd (delete_book librarian_headers 1 ?r))) = {}" by simp_all
  have b5: "borrowing_records_data ?r =
       [(loan 1 1)\<lparr>return_date := Some tuesday_2024_01_02, status := ''returned''\<rparr>]"
    by (simp add: run_return_requests returned_state_def)
  show ?thesis using a1 a2 a3 A b1 b2 b5 B by blast
qed

section \<open>The rules of the specification in reachable states\<close>

text \<open>
  C1: after any sequence of requests from the empty store, every book of the store has
  available copies equal to its total copies minus the number of borrowed records of that book.
\<close>

theorem copies_match_borrowed_records:
  "b \<in> set (books_data (run acts init_state)) \<Longrightarrow>
   available_copies b =
     total_copies b - int (borrowed_for_book (borrowing_records_data (run acts init_state)) (b_id b))"
  using consistent_reachable[of acts] by (simp add: consistent_def copies_ok_def)

theorem copies_match_borrowed_records_witness:
  "dune\<lparr>available_copies := 0\<rparr> \<in> set (books_data (run borrow_requests init_state))
   \<and> borrowed_for_book (borrowing_records_data (run borrow_requests init_state)) 1 = 1
   \<and> available_copies (dune\<lparr>available_copies := 0\<rparr>) =
       total_copies (dune\<lparr>available_copies := 0\<rparr>)
         - int (borrowed_for_book (borrowing_records_data (run borrow_requests init_state))
                  (b_id (dune\<lparr>available_copies := 0\<rparr>)))"
proof -
  have h: "dune\<lparr>available_copies := 0\<rparr> \<in> set (books_data (run borrow_requests init_state))"
    by (simp add: run_borrow_requests borrowed_state_def)
  have c: "borrowed_for_book (borrowing_records_data (run borrow_requests init_state)) 1 = 1"
    by (simp add: run_borrow_requests borrowed_state_def borrowed_for_book_def loan_def)
  show ?thesis using copies_match_borrowed_records[OF h] h c by simp
qed

text \<open>
  C2: in every reachable state a student and a book have at most one non-terminal record
  (reserved or borrowed) between them, and a request handled in any state with this
  property leaves a state with this property.
\<close>

theorem one_active_record_per_pair:
  "active_for (borrowing_records_data (run acts init_state)) sid bid \<le> 1
   \<and> ((\<forall>sid bid. active_for (borrowing_records_data s) sid bid \<le> 1) \<longrightarrow>
        active_for (borrowing_records_data (snd (handle a s))) sid' bid' \<le> 1)"
proof
  show "active_for (borrowing_records_data (run acts init_state)) sid bid \<le> 1"
    using consistent_reachable[of acts] by (simp add: consistent_def)
  show "(\<forall>sid bid. active_for (borrowing_records_data s) sid bid \<le> 1) \<longrightarrow>
        active_for (borrowing_records_data (snd (handle a s))) sid' bid' \<le> 1"
    using effect_pair_unique[OF handle_effect[of s a]] by blast
qed

theorem one_active_record_per_pair_witness:
  "(\<forall>sid bid. active_for (borrowing_records_data reserved_state) sid bid \<le> 1)
   \<and> active_for (borrowing_records_data reserved_state) 2 1 = 1
   \<and> active_for (borrowing_records_data
        (snd (handle (Borrow student_headers 1 monday_2024_01_01 monday_2024_01_01)
                reserved_state))) 2 1 \<le> 1
   \<and> active_for (borrowing_records_data (run reserve_requests init_state)) 2 1 \<le> 1"
proof -
  have h: "\<forall>sid bid. active_for (borrowing_records_data reserved_state) sid bid \<le> 1"
    by (simp add: reserved_state_def active_for_def)
  have c: "active_for (borrowing_records_data reserved_state) 2 1 = 1"
    by (simp add: reserved_state_def active_for_def dune_reservation_def non_terminal_def)
  show ?thesis
    using h c
      one_active_record_per_pair[of reserve_requests 2 1 reserved_state
        "Borrow student_headers 1 monday_2024_01_01 monday_2024_01_01" 2 1]
    by blast
qed

text \<open>
  C3, as the code has it: in every reachable state a student has at most three borrowed
  records. A borrow request of a student who has three (or more) borrowed records changes
  nothing and fails: with 404 "Book not found" when the book does not exist, with 400 "No
  copies of this book are currently available" when the book has no available copy, and
  with 400 "You have reached the maximum limit of 3 borrowed books" when the book exists
  and has an available copy.
\<close>

theorem borrow_limit:
  "borrowed_by (borrowing_records_data (run acts init_state)) sid \<le> 3
   \<and> (role_required ''student'' s h = Inr u
        \<and> 3 \<le> borrowed_by (borrowing_records_data s) (u_id u) \<longrightarrow>
        snd (borrow_book h bid now now' s) = s
        \<and> (find (\<lambda>b. b_id b = bid) (books_data s) = None \<longrightarrow>
              fst (borrow_book h bid now now' s) = Response ''Book not found'' 404 NoPayload)
        \<and> (find (\<lambda>b. b_id b = bid) (books_data s) = Some b \<and> available_copies b \<le> 0 \<longrightarrow>
              fst (borrow_book h bid now now' s) =
                Response ''No copies of this book are currently available'' 400 NoPayload)
        \<and> (find (\<lambda>b. b_id b = bid) (books_data s) = Some b \<and> 0 < available_copies b \<longrightarrow>
              fst (borrow_book h bid now now' s) =
                Response ''You have reached the maximum limit of 3 borrowed books'' 400
                  NoPayload))"
proof (intro conjI impI)
  show "borrowed_by (borrowing_records_data (run acts init_state)) sid \<le> 3"
    using consistent_reachable[of acts] by (simp add: consistent_def)
next
  assume a: "role_required ''student'' s h = Inr u
        \<and> 3 \<le> borrowed_by (borrowing_records_data s) (u_id u)"
  then show "snd (borrow_book h bid now now' s) = s"
    by (simp add: borrow_book_def Let_def borrowed_by_def split: option.splits)
next
  assume "role_required ''student'' s h = Inr u
        \<and> 3 \<le> borrowed_by (borrowing_records_data s) (u_id u)"
    and "find (\<lambda>b. b_id b = bid) (books_data s) = None"
  then show "fst (borrow_book h bid now now' s) = Response ''Book not found'' 404 NoPayload"
    by (simp add: borrow_book_def)
next
  assume "role_required ''student'' s h = Inr u
        \<and> 3 \<le> borrowed_by (borrowing_records_data s) (u_id u)"
    and "find (\<lambda>b. b_id b = bid) (books_data s) = Some b \<and> available_copies b \<le> 0"
  then show "fst (borrow_book h bid now now' s) =
                Response ''No copies of this book are currently available'' 400 NoPayload"
    by (simp add: borrow_book_def)
next
  assume "role_required ''student'' s h = Inr u
        \<and> 3 \<le> borrowed_by (borrowing_records_data s) (u_id u)"
    and "find (\<lambda>b. b_id b = bid) (books_data s) = Some b \<and> 0 < available_copies b"
  then show "fst (borrow_book h bid now now' s) =
                Response ''You have reached the maximum limit of 3 borrowed books'' 400 NoPayload"
    by (simp add: borrow_book_def Let_def borrowed_by_def)
qed

theorem borrow_limit_witness:
  "role_required ''student'' limit_state student_headers = Inr the_student
   \<and> borrowed_by (borrowing_records_data limit_state) (u_id the_student) = 3
   \<and> find (\<lambda>b. b_id b = 4) (books_data limit_state) = Some walden
   \<and> 0 < available_copies walden
   \<and> borrow_book student_headers 4 tuesday_2024_01_02 tuesday_2024_01_02 limit_state =
       (Response ''You have reached the maximum limit of 3 borrowed books'' 400 NoPayload,
        limit_state)
   \<and> borrowed_by (borrowing_records_data (run limit_requests init_state)) 2 \<le> 3"
proof -
  have h1: "role_required ''student'' limit_state student_headers = Inr the_student"
    by (rule student_logged_in) (simp add: limit_state_def)
  have h2: "borrowed_by (borrowing_records_data limit_state) (u_id the_student) = 3"
    by (simp add: limit_state_def borrowed_by_def loan_def the_student_def)
  have h3: "find (\<lambda>b. b_id b = 4) (books_data limit_state) = Some walden"
    by (simp add: limit_state_def dune_def emma_def ulysses_def walden_def)
  have h4: "0 < available_copies walden" by (simp add: walden_def)
  from borrow_limit[of limit_requests 2 limit_state student_headers the_student 4
      tuesday_2024_01_02 tuesday_2024_01_02 walden] h1 h2 h3 h4
  have "borrow_book student_headers 4 tuesday_2024_01_02 tuesday_2024_01_02 limit_state =
       (Response ''You have reached the maximum limit of 3 borrowed books'' 400 NoPayload,
        limit_state)"
    and "borrowed_by (borrowing_records_data (run limit_requests init_state)) 2 \<le> 3"
    by (simp_all add: prod_eq_iff)
  then show ?thesis using h1 h2 h3 h4 by simp
qed

text \<open>
  The sentence of C3 about the message, as it is written, fails: the student of
  \<open>limit_state\<close> (a reachable state) has three borrowed records, and a borrow request for a
  book without available copies, or for a book that does not exist, fails with another
  message.
\<close>

theorem borrow_limit_counterexample:
  "run limit_requests init_state = limit_state
   \<and> role_required ''student'' limit_state student_headers = Inr the_student
   \<and> borrowed_by (borrowing_records_data limit_state) (u_id the_student) = 3
   \<and> borrow_book student_headers 1 tuesday_2024_01_02 tuesday_2024_01_02 limit_state =
       (Response ''No copies of this book are currently available'' 400 NoPayload, limit_state)
   \<and> borrow_book student_headers 9 tuesday_2024_01_02 tuesday_2024_01_02 limit_state =
       (Response ''Book not found'' 404 NoPayload, limit_state)
   \<and> message (fst (borrow_book student_headers 1 tuesday_2024_01_02 tuesday_2024_01_02
                      limit_state))
       \<noteq> ''You have reached the maximum limit of 3 borrowed books''"
proof -
  have h1: "role_required ''student'' limit_state student_headers = Inr the_student"
    by (rule student_logged_in) (simp add: limit_state_def)
  have h2: "borrowed_by (borrowing_records_data limit_state) (u_id the_student) = 3"
    by (simp add: limit_state_def borrowed_by_def loan_def the_student_def)
  have b1: "find (\<lambda>b. b_id b = 1) (books_data limit_state) = Some (dune\<lparr>available_copies := 0\<rparr>)"
    by (simp add: limit_state_def dune_def)
  have b9: "find (\<lambda>b. b_id b = 9) (books_data limit_state) = None"
    by (simp add: limit_state_def dune_def emma_def ulysses_def walden_def)
  have r1: "borrow_book student_headers 1 tuesday_2024_01_02 tuesday_2024_01_02 limit_state =
       (Response ''No copies of this book are currently available'' 400 NoPayload, limit_state)"
    using h1 b1 by (simp add: borrow_book_def)
  have r9: "borrow_book student_headers 9 tuesday_2024_01_02 tuesday_2024_01_02 limit_state =
       (Response ''Book not found'' 404 NoPayload, limit_state)"
    using h1 b9 by (simp add: borrow_book_def)
  show ?thesis using run_limit_requests h1 h2 r1 r9 by simp
qed

text \<open>
  C4, evaluated: the student borrows the only copy of a book (201, no copy left), borrows
  the same book again, and the librarian returns the record (one copy again). The second
  request is answered 400 "No copies of this book are currently available": the check of
  the available copies comes before the look-up of the student's own record, so the message
  "You have already borrowed this book" cannot be reached for a single-copy book.
\<close>

theorem second_borrow_of_single_copy:
  "run setup_requests init_state = setup_state
   \<and> find (\<lambda>b. b_id b = 1) (books_data setup_state) = Some dune
   \<and> total_copies dune = 1 \<and> available_copies dune = 1
   \<and> borrowed_by (borrowing_records_data setup_state) 2 = 0
   \<and> active_for (borrowing_records_data setup_state) 2 1 = 0
   \<and> borrow_book student_headers 1 monday_2024_01_01 monday_2024_01_01 setup_state =
       (Response ''Book borrowed successfully'' 201 (RecordPayload (loan 1 1)), borrowed_state)
   \<and> map available_copies (books_data borrowed_state) = [0]
   \<and> borrow_book student_headers 1 tuesday_2024_01_02 tuesday_2024_01_02 borrowed_state =
       (Response ''No copies of this book are currently available'' 400 NoPayload,
        borrowed_state)
   \<and> message (fst (borrow_book student_headers 1 tuesday_2024_01_02 tuesday_2024_01_02
                      borrowed_state))
       \<noteq> ''You have already borrowed this book''
   \<and> return_book librarian_headers 1 tuesday_2024_01_02 borrowed_state =
       (Response ''Book returned successfully'' 200
          (RecordPayload ((loan 1 1)\<lparr>return_date := Some tuesday_2024_01_02,
                                     status := ''returned''\<rparr>)),
        returned_state)
   \<and> map available_copies (books_data returned_state) = [1]"
proof -
  have s1: "role_required ''student'' setup_state student_headers = Inr the_student"
    by (rule student_logged_in) (simp add: setup_state_def)
  have s2: "role_required ''student'' borrowed_state student_headers = Inr the_student"
    by (rule student_logged_in) (simp add: borrowed_state_def)
  have l2: "role_required ''librarian'' borrowed_state librarian_headers = Inr the_librarian"
    by (rule librarian_logged_in) (simp add: borrowed_state_def)
  have first: "borrow_book student_headers 1 monday_2024_01_01 monday_2024_01_01 setup_state =
       (Response ''Book borrowed successfully'' 201 (RecordPayload (loan 1 1)), borrowed_state)"
    using s1 by (simp add: borrow_book_def setup_state_def borrowed_state_def Let_def
        non_terminal_def get_next_id_def the_student_def dune_def loan_def due_monday_2024_01_01)
  have second: "borrow_book student_headers 1 tuesday_2024_01_02 tuesday_2024_01_02 borrowed_state =
       (Response ''No copies of this book are currently available'' 400 NoPayload, borrowed_state)"
    using s2 by (simp add: borrow_book_def) (simp add: borrowed_state_def dune_def)
  have third: "return_book librarian_headers 1 tuesday_2024_01_02 borrowed_state =
       (Response ''Book returned successfully'' 200
          (RecordPayload ((loan 1 1)\<lparr>return_date := Some tuesday_2024_01_02,
                                     status := ''returned''\<rparr>)),
        returned_state)"
    using l2 by (simp add: return_book_def)
      (simp add: borrowed_state_def returned_state_def Let_def non_terminal_def dune_def loan_def)
  have pre: "find (\<lambda>b. b_id b = 1) (books_data setup_state) = Some dune"
    "total_copies dune = 1" "available_copies dune = 1"
    "borrowed_by (borrowing_records_data setup_state) 2 = 0"
    "active_for (borrowing_records_data setup_state) 2 1 = 0"
    by (simp_all add: setup_state_def dune_def borrowed_by_def active_for_def)
  have av: "map available_copies (books_data borrowed_state) = [0]"
    "map available_copies (books_data returned_state) = [1]"
    by (simp_all add: borrowed_state_def returned_state_def dune_def)
  show ?thesis using run_setup_requests pre first av second third by simp
qed

section \<open>Collecting a reservation\<close>

lemma role_required_code:
  "role_required r s h = Inl e \<Longrightarrow> code e = 401 \<or> code e = 403"
  by (auto simp: role_required_def login_required_def Let_def split: sum.splits option.splits if_splits)

lemma find_append:
  "find P (xs @ ys) = (case find P xs of None \<Rightarrow> find P ys | Some x \<Rightarrow> Some x)"
  by (induction xs) auto

lemma update_first_append_none:
  "find P xs = None \<Longrightarrow> update_first P f (xs @ ys) = xs @ update_first P f ys"
  by (induction xs) (auto split: if_splits)

text \<open>What a successful reservation (201) has done.\<close>

lemma reserve_book_success:
  assumes "reserve_book h bid s = (r1, s1)" and "code r1 = 201"
  obtains u b0 where "role_required ''student'' s h = Inr u"
    and "find (\<lambda>b. b_id b = bid) (books_data s) = Some b0"
    and "find (\<lambda>rec. student_id rec = u_id u \<and> book_id rec = bid \<and> non_terminal rec)
           (borrowing_records_data s) = None"
    and "r1 = Response ''Book reserved successfully'' 201
           (RecordPayload
              \<lparr>r_id = get_next_id (map r_id (borrowing_records_data s)), student_id = u_id u,
               book_id = bid, borrow_date = None, due_date = None, return_date = None,
               status = ''reserved''\<rparr>)"
    and "s1 = s\<lparr>borrowing_records_data := borrowing_records_data s @
           [\<lparr>r_id = get_next_id (map r_id (borrowing_records_data s)), student_id = u_id u,
             book_id = bid, borrow_date = None, due_date = None, return_date = None,
             status = ''reserved''\<rparr>]\<rparr>"
proof (cases "role_required ''student'' s h")
  case (Inl e)
  then have "r1 = e" using assms(1) by (simp add: reserve_book_def)
  then show ?thesis using role_required_code[OF Inl] assms(2) by auto
next
  case (Inr u)
  show ?thesis
  proof (cases "find (\<lambda>b. b_id b = bid) (books_data s)")
    case None
    then show ?thesis using Inr assms by (auto simp: reserve_book_def)
  next
    case (Some b0)
    show ?thesis
    proof (cases "find (\<lambda>rec. student_id rec = u_id u \<and> book_id rec = bid \<and> non_terminal rec)
           (borrowing_records_data s)")
      case None
      show ?thesis
        by (rule that[OF Inr Some None]) (use Inr Some None assms in \<open>auto simp: reserve_book_def Let_def\<close>)
    next
      case (Some er)
      then show ?thesis using Inr \<open>find _ (books_data s) = Some b0\<close> assms
        by (auto simp: reserve_book_def Let_def)
    qed
  qed
qed

text \<open>
  C5: after a successful reservation of book \<open>bid\<close> (201, with record \<open>res\<close>), a borrow
  request of the same caller for the same book, while the book has an available copy and the
  student has fewer than three borrowed records, answers 200 with the reservation record
  turned into a loan: same identifier, status borrowed, borrow and due dates set. No record
  is added (the identifiers in the table are the same), the record in the table is the
  answered one, and the book has one available copy less.
\<close>

theorem borrow_after_reserve:
  assumes "reserve_book h bid s = (r1, s1)" and "code r1 = 201"
    and "payload r1 = RecordPayload res"
    and "find (\<lambda>b. b_id b = bid) (books_data s1) = Some b"
    and "1 \<le> available_copies b"
    and "borrowed_by (borrowing_records_data s1) (student_id res) < 3"
  shows "fst (borrow_book h bid now now' s1) =
           Response ''Reserved book collected and borrowed successfully'' 200
             (RecordPayload (res\<lparr>status := ''borrowed'', borrow_date := Some now,
                                  due_date := Some (calculate_due_date now' 4)\<rparr>))
       \<and> r_id (res\<lparr>status := ''borrowed'', borrow_date := Some now,
                     due_date := Some (calculate_due_date now' 4)\<rparr>) = r_id res
       \<and> map r_id (borrowing_records_data (snd (borrow_book h bid now now' s1))) =
           map r_id (borrowing_records_data s1)
       \<and> last (borrowing_records_data s1) = res
       \<and> last (borrowing_records_data (snd (borrow_book h bid now now' s1))) =
           res\<lparr>status := ''borrowed'', borrow_date := Some now,
                due_date := Some (calculate_due_date now' 4)\<rparr>
       \<and> butlast (borrowing_records_data (snd (borrow_book h bid now now' s1))) =
           butlast (borrowing_records_data s1)
       \<and> find (\<lambda>b. b_id b = bid) (books_data (snd (borrow_book h bid now now' s1))) =
           Some (b\<lparr>available_copies := available_copies b - 1\<rparr>)"
proof -
  from assms(1,2) obtain u b0 where
    auth: "role_required ''student'' s h = Inr u"
    and none: "find (\<lambda>rec. student_id rec = u_id u \<and> book_id rec = bid \<and> non_terminal rec)
           (borrowing_records_data s) = None"
    and r1: "r1 = Response ''Book reserved successfully'' 201
           (RecordPayload
              \<lparr>r_id = get_next_id (map r_id (borrowing_records_data s)), student_id = u_id u,
               book_id = bid, borrow_date = None, due_date = None, return_date = None,
               status = ''reserved''\<rparr>)"
    and s1: "s1 = s\<lparr>borrowing_records_data := borrowing_records_data s @
           [\<lparr>r_id = get_next_id (map r_id (borrowing_records_data s)), student_id = u_id u,
             book_id = bid, borrow_date = None, due_date = None, return_date = None,
             status = ''reserved''\<rparr>]\<rparr>"
    by (rule reserve_book_success)
  let ?same = "\<lambda>rec. student_id rec = u_id u \<and> book_id rec = bid \<and> non_terminal rec"
  let ?col = "res\<lparr>status := ''borrowed'', borrow_date := Some now,
                  due_date := Some (calculate_due_date now' 4)\<rparr>"
  have res: "res = \<lparr>r_id = get_next_id (map r_id (borrowing_records_data s)), student_id = u_id u,
               book_id = bid, borrow_date = None, due_date = None, return_date = None,
               status = ''reserved''\<rparr>"
    using assms(3) r1 by simp
  have recs1: "borrowing_records_data s1 = borrowing_records_data s @ [res]"
    using s1 res by simp
  have same_res: "?same res" "status res = ''reserved''" "student_id res = u_id u"
    by (simp_all add: res non_terminal_def)
  have auth1: "role_required ''student'' s1 h = Inr u"
    using auth s1 role_required_users[of s1 s] by simp
  have found: "find ?same (borrowing_records_data s1) = Some res"
    using none same_res(1) by (simp add: recs1 find_append)
  have upd: "update_first ?same (\<lambda>_. ?col) (borrowing_records_data s1)
      = borrowing_records_data s @ [?col]"
    using none same_res(1) by (simp add: recs1 update_first_append_none)
  have lim: "\<not> 3 \<le> length (filter (\<lambda>rec. student_id rec = u_id u \<and> status rec = ''borrowed'')
                 (borrowing_records_data s1))"
    using assms(6) same_res(3) by (simp add: borrowed_by_def)
  have eq: "borrow_book h bid now now' s1 =
      (Response ''Reserved book collected and borrowed successfully'' 200 (RecordPayload ?col),
       s1\<lparr>books_data :=
            update_first (\<lambda>b. b_id b = bid)
              (\<lambda>b. b\<lparr>available_copies := available_copies b - 1\<rparr>) (books_data s1),
          borrowing_records_data := borrowing_records_data s @ [?col]\<rparr>)"
    using auth1 assms(4,5) lim found same_res(2) upd
    by (simp add: borrow_book_def Let_def)
  have bid: "b_id b = bid" using find_Some_holds[OF assms(4)] by simp
  show ?thesis
    using find_update_first[OF assms(4), of "\<lambda>b. b\<lparr>available_copies := available_copies b - 1\<rparr>"] bid
    by (simp add: eq recs1)
qed

theorem borrow_after_reserve_witness:
  "reserve_book student_headers 1 setup_state =
     (Response ''Book reserved successfully'' 201 (RecordPayload dune_reservation), reserved_state)
   \<and> find (\<lambda>b. b_id b = 1) (books_data reserved_state) = Some dune
   \<and> 1 \<le> available_copies dune
   \<and> borrowed_by (borrowing_records_data reserved_state) (student_id dune_reservation) < 3
   \<and> fst (borrow_book student_headers 1 monday_2024_01_01 monday_2024_01_01 reserved_state) =
       Response ''Reserved book collected and borrowed successfully'' 200
         (RecordPayload (loan 1 1))
   \<and> borrowing_records_data
        (snd (borrow_book student_headers 1 monday_2024_01_01 monday_2024_01_01 reserved_state))
       = [loan 1 1]
   \<and> find (\<lambda>b. b_id b = 1)
        (books_data
           (snd (borrow_book student_headers 1 monday_2024_01_01 monday_2024_01_01
                   reserved_state)))
       = Some (dune\<lparr>available_copies := 0\<rparr>)"
proof -
  have s1: "role_required ''student'' setup_state student_headers = Inr the_student"
    by (rule student_logged_in) (simp add: setup_state_def)
  have h1: "reserve_book student_headers 1 setup_state =
     (Response ''Book reserved successfully'' 201 (RecordPayload dune_reservation), reserved_state)"
    using s1 by (simp add: reserve_book_def)
      (simp add: setup_state_def reserved_state_def Let_def get_next_id_def the_student_def
        dune_def dune_reservation_def)
  have h2: "code (Response ''Book reserved successfully'' 201 (RecordPayload dune_reservation)) = 201"
    "payload (Response ''Book reserved successfully'' 201 (RecordPayload dune_reservation))
       = RecordPayload dune_reservation" by simp_all
  have h4: "find (\<lambda>b. b_id b = 1) (books_data reserved_state) = Some dune"
    by (simp add: reserved_state_def dune_def)
  have h5: "1 \<le> available_copies dune" by (simp add: dune_def)
  have h6: "borrowed_by (borrowing_records_data reserved_state) (student_id dune_reservation) < 3"
    by (simp add: reserved_state_def borrowed_by_def dune_reservation_def)
  have col: "dune_reservation\<lparr>status := ''borrowed'', borrow_date := Some monday_2024_01_01,
       due_date := Some (calculate_due_date monday_2024_01_01 4)\<rparr> = loan 1 1"
    by (simp add: dune_reservation_def loan_def due_monday_2024_01_01)
  have recs: "borrowing_records_data reserved_state = [dune_reservation]"
    by (simp add: reserved_state_def)
  have av: "dune\<lparr>available_copies := available_copies dune - 1\<rparr> = dune\<lparr>available_copies := 0\<rparr>"
    by (simp add: dune_def)
  let ?s2 = "snd (borrow_book student_headers 1 monday_2024_01_01 monday_2024_01_01 reserved_state)"
  from borrow_after_reserve[OF h1 h2 h4 h5 h6, of monday_2024_01_01 monday_2024_01_01]
  have A: "fst (borrow_book student_headers 1 monday_2024_01_01 monday_2024_01_01 reserved_state) =
       Response ''Reserved book collected and borrowed successfully'' 200 (RecordPayload (loan 1 1))"
    and B: "map r_id (borrowing_records_data ?s2) = map r_id [dune_reservation]"
    and C: "last (borrowing_records_data ?s2) = loan 1 1"
    and D: "find (\<lambda>b. b_id b = 1) (books_data ?s2) = Some (dune\<lparr>available_copies := 0\<rparr>)"
    unfolding col recs av by simp_all
  from B obtain x where "borrowing_records_data ?s2 = [x]" by (auto simp: map_eq_Cons_conv)
  then have E: "borrowing_records_data ?s2 = [loan 1 1]" using C by simp
  show ?thesis using h1 h4 h5 h6 A E D by simp
qed

section \<open>Changing the total copies of a book\<close>

lemma others_update_first:
  "find P xs = Some x \<Longrightarrow> P y \<Longrightarrow>
   (\<exists>b \<in> set (update_first P (\<lambda>_. y) xs). \<not> P b \<and> Q b) = (\<exists>b \<in> set xs. \<not> P b \<and> Q b)"
  by (induction xs) (auto split: if_splits)

text \<open>
  C8, as the code has it. The request carries \<open>total_copies = new_total\<close>; the caller is
  a librarian and the book exists; an \<open>isbn\<close> in the same request, if any, is the book's own
  or that of no other book (otherwise the request has already been answered 409). Then:
  when \<open>new_total\<close> is below total minus available copies, the answer is 400 "Cannot reduce
  total copies below currently borrowed copies", the book keeps its two copy counts, and
  the whole state is unchanged when the request carries no other field; otherwise the answer
  is 200 and the book has \<open>available + (new_total - total)\<close> available copies and
  \<open>new_total\<close> total copies.
\<close>

theorem update_total_copies:
  assumes "role_required ''librarian'' s h = Inr u"
    and "find (\<lambda>b. b_id b = bid) (books_data s) = Some book0"
    and "upd_total_copies d = Some new_total"
    and "case upd_isbn d of
           None \<Rightarrow> True
         | Some i \<Rightarrow> i = isbn book0 \<or> \<not> (\<exists>b \<in> set (books_data s). b_id b \<noteq> bid \<and> isbn b = i)"
  shows "(new_total < total_copies book0 - available_copies book0 \<longrightarrow>
            fst (update_book h bid d s) =
              Response ''Cannot reduce total copies below currently borrowed copies'' 400 NoPayload
            \<and> map_option total_copies
                  (find (\<lambda>b. b_id b = bid) (books_data (snd (update_book h bid d s))))
                = Some (total_copies book0)
            \<and> map_option available_copies
                  (find (\<lambda>b. b_id b = bid) (books_data (snd (update_book h bid d s))))
                = Some (available_copies book0)
            \<and> (upd_title d = None \<and> upd_author d = None \<and> upd_isbn d = None
                 \<and> upd_publication_year d = None \<longrightarrow> snd (update_book h bid d s) = s))
       \<and> (\<not> new_total < total_copies book0 - available_copies book0 \<longrightarrow>
            message (fst (update_book h bid d s)) = ''Book updated successfully''
            \<and> code (fst (update_book h bid d s)) = 200
            \<and> map_option BookPayload
                  (find (\<lambda>b. b_id b = bid) (books_data (snd (update_book h bid d s))))
                = Some (payload (fst (update_book h bid d s)))
            \<and> map_option total_copies
                  (find (\<lambda>b. b_id b = bid) (books_data (snd (update_book h bid d s))))
                = Some new_total
            \<and> map_option available_copies
                  (find (\<lambda>b. b_id b = bid) (books_data (snd (update_book h bid d s))))
                = Some (available_copies book0 + (new_total - total_copies book0)))"
proof -
  define book1 where "book1 = (case upd_title d of None \<Rightarrow> book0 | Some t \<Rightarrow> book0\<lparr>title := t\<rparr>)"
  define book2 where "book2 = (case upd_author d of None \<Rightarrow> book1 | Some a \<Rightarrow> book1\<lparr>author := a\<rparr>)"
  define book3 where "book3 = (case upd_isbn d of None \<Rightarrow> book2 | Some i \<Rightarrow> book2\<lparr>isbn := i\<rparr>)"
  define book4 where "book4 = (case upd_publication_year d of
                                 None \<Rightarrow> book3
                               | Some y \<Rightarrow> book3\<lparr>publication_year := stored_year y\<rparr>)"
  define book6 where "book6 = book4\<lparr>available_copies :=
                                      available_copies book4 + (new_total - total_copies book4),
                                    total_copies := new_total\<rparr>"
  define store where "store = (\<lambda>b. s\<lparr>books_data :=
                                    update_first (\<lambda>x. b_id x = bid) (\<lambda>_. b) (books_data s)\<rparr>)"
  have id0: "b_id book0 = bid" using find_Some_holds[OF assms(2)] by simp
  have keep2: "b_id book2 = bid" "isbn book2 = isbn book0"
    by (simp_all add: book2_def book1_def id0 split: option.splits)
  have keep4: "b_id book4 = bid" "total_copies book4 = total_copies book0"
    "available_copies book4 = available_copies book0"
    by (simp_all add: book4_def book3_def book2_def book1_def id0 split: option.splits)
  have plain: "upd_title d = None \<and> upd_author d = None \<and> upd_isbn d = None
                 \<and> upd_publication_year d = None \<Longrightarrow> book4 = book0"
    by (simp add: book4_def book3_def book2_def book1_def)
  have guard: "\<not> (case upd_isbn d of
                    None \<Rightarrow> False
                  | Some i \<Rightarrow> i \<noteq> isbn book2 \<and>
                      (\<exists>b \<in> set (books_data (store book2)). b_id b \<noteq> bid \<and> isbn b = i))"
  proof (cases "upd_isbn d")
    case None
    then show ?thesis by simp
  next
    case (Some i)
    have "(\<exists>b \<in> set (update_first (\<lambda>x. b_id x = bid) (\<lambda>_. book2) (books_data s)).
              \<not> b_id b = bid \<and> isbn b = i)
        = (\<exists>b \<in> set (books_data s). \<not> b_id b = bid \<and> isbn b = i)"
      by (rule others_update_first[OF assms(2)]) (rule keep2(1))
    then show ?thesis using Some assms(4) keep2(2) by (simp add: store_def)
  qed
  have eq: "update_book h bid d s =
      (if new_total < total_copies book4 - available_copies book4 then
         (Response ''Cannot reduce total copies below currently borrowed copies'' 400 NoPayload,
          store book4)
       else (Response ''Book updated successfully'' 200 (BookPayload book6), store book6))"
    using guard assms(1,2,3)
    unfolding update_book_def Let_def book1_def book2_def book3_def book4_def book6_def store_def
    by (simp split: option.splits)
  have found: "b_id bk = bid \<Longrightarrow> find (\<lambda>b. b_id b = bid) (books_data (store bk)) = Some bk" for bk
    using find_update_first[OF assms(2), of "\<lambda>_. bk"] by (simp add: store_def)
  have same: "store book0 = s"
    using update_first_self[OF assms(2)] by (simp add: store_def)
  have keep6: "b_id book6 = bid" "total_copies book6 = new_total"
    "available_copies book6 = available_copies book0 + (new_total - total_copies book0)"
    by (simp_all add: book6_def keep4)
  show ?thesis
  proof (cases "new_total < total_copies book0 - available_copies book0")
    case True
    then have "update_book h bid d s =
        (Response ''Cannot reduce total copies below currently borrowed copies'' 400 NoPayload,
         store book4)"
      by (simp add: eq keep4)
    then show ?thesis using True found[OF keep4(1)] keep4 plain same by auto
  next
    case False
    then have "update_book h bid d s =
        (Response ''Book updated successfully'' 200 (BookPayload book6), store book6)"
      by (simp add: eq keep4)
    then show ?thesis using False found[OF keep6(1)] keep6 by simp
  qed
qed

theorem update_total_copies_witness:
  "role_required ''librarian'' two_book_state librarian_headers = Inr the_librarian
   \<and> find (\<lambda>b. b_id b = 1) (books_data two_book_state) = Some (dune\<lparr>available_copies := 0\<rparr>)
   \<and> total_copies (dune\<lparr>available_copies := 0\<rparr>)
        - available_copies (dune\<lparr>available_copies := 0\<rparr>) = 1
   \<and> update_book librarian_headers 1 (total_only 0) two_book_state =
       (Response ''Cannot reduce total copies below currently borrowed copies'' 400 NoPayload,
        two_book_state)
   \<and> code (fst (update_book librarian_headers 1 (total_only 3) two_book_state)) = 200
   \<and> map_option total_copies
        (find (\<lambda>b. b_id b = 1)
           (books_data (snd (update_book librarian_headers 1 (total_only 3) two_book_state))))
       = Some 3
   \<and> map_option available_copies
        (find (\<lambda>b. b_id b = 1)
           (books_data (snd (update_book librarian_headers 1 (total_only 3) two_book_state))))
       = Some 2"
proof -
  let ?b = "dune\<lparr>available_copies := 0\<rparr>"
  have h1: "role_required ''librarian'' two_book_state librarian_headers = Inr the_librarian"
    by (rule librarian_logged_in) (simp add: two_book_state_def)
  have h2: "find (\<lambda>b. b_id b = 1) (books_data two_book_state) = Some ?b"
    by (simp add: two_book_state_def dune_def)
  have h3: "upd_total_copies (total_only n) = Some n" for n by (simp add: total_only_def)
  have h4: "case upd_isbn (total_only n) of
           None \<Rightarrow> True
         | Some i \<Rightarrow> i = isbn ?b \<or>
             \<not> (\<exists>b \<in> set (books_data two_book_state). b_id b \<noteq> 1 \<and> isbn b = i)" for n
    by (simp add: total_only_def)
  have c: "total_copies ?b - available_copies ?b = 1" "total_copies ?b = 1"
    "available_copies ?b = 0" by (simp_all add: dune_def)
  have plain: "upd_title (total_only n) = None \<and> upd_author (total_only n) = None
      \<and> upd_isbn (total_only n) = None \<and> upd_publication_year (total_only n) = None" for n
    by (simp add: total_only_def)
  from update_total_copies[OF h1 h2 h3[of 0] h4[of 0]] c plain[of 0]
  have A: "update_book librarian_headers 1 (total_only 0) two_book_state =
       (Response ''Cannot reduce total copies below currently borrowed copies'' 400 NoPayload,
        two_book_state)"
    by (simp add: prod_eq_iff)
  from update_total_copies[OF h1 h2 h3[of 3] h4[of 3]] c
  have B: "code (fst (update_book librarian_headers 1 (total_only 3) two_book_state)) = 200"
    "map_option total_copies
        (find (\<lambda>b. b_id b = 1)
           (books_data (snd (update_book librarian_headers 1 (total_only 3) two_book_state))))
       = Some 3"
    "map_option available_copies
        (find (\<lambda>b. b_id b = 1)
           (books_data (snd (update_book librarian_headers 1 (total_only 3) two_book_state))))
       = Some 2"
    by simp_all
  show ?thesis using h1 h2 c(1) A B by simp
qed

text \<open>
  C8 as it is written fails in the reachable state \<open>two_book_state\<close>, where the one copy of
  book 1 is borrowed and \<open>new_total = 0\<close> is below the borrowed copies. A request that also
  carries the isbn of book 2 is answered 409 "Book with this ISBN already exists", not with
  the message of the claim. A request that also carries a title is answered with the
  message of the claim, and the book in memory has the new title.
\<close>

theorem update_total_copies_counterexample:
  "run two_book_requests init_state = two_book_state
   \<and> role_required ''librarian'' two_book_state librarian_headers = Inr the_librarian
   \<and> find (\<lambda>b. b_id b = 1) (books_data two_book_state) = Some (dune\<lparr>available_copies := 0\<rparr>)
   \<and> upd_total_copies isbn_and_total = Some 0
   \<and> (0::int) < total_copies (dune\<lparr>available_copies := 0\<rparr>)
                   - available_copies (dune\<lparr>available_copies := 0\<rparr>)
   \<and> update_book librarian_headers 1 isbn_and_total two_book_state =
       (Response ''Book with this ISBN already exists'' 409 NoPayload, two_book_state)
   \<and> message (fst (update_book librarian_headers 1 isbn_and_total two_book_state))
       \<noteq> ''Cannot reduce total copies below currently borrowed copies''
   \<and> upd_total_copies title_and_total = Some 0
   \<and> fst (update_book librarian_headers 1 title_and_total two_book_state) =
       Response ''Cannot reduce total copies below currently borrowed copies'' 400 NoPayload
   \<and> find (\<lambda>b. b_id b = 1)
        (books_data (snd (update_book librarian_headers 1 title_and_total two_book_state)))
       = Some (dune\<lparr>title := ''Dune II'', available_copies := 0\<rparr>)
   \<and> dune\<lparr>title := ''Dune II'', available_copies := 0\<rparr> \<noteq> dune\<lparr>available_copies := 0\<rparr>"
proof -
  let ?b = "dune\<lparr>available_copies := 0\<rparr>"
  have h1: "role_required ''librarian'' two_book_state librarian_headers = Inr the_librarian"
    by (rule librarian_logged_in) (simp add: two_book_state_def)
  have h2: "find (\<lambda>b. b_id b = 1) (books_data two_book_state) = Some ?b"
    by (simp add: two_book_state_def dune_def)
  have i: "update_book librarian_headers 1 isbn_and_total two_book_state =
       (Response ''Book with this ISBN already exists'' 409 NoPayload, two_book_state)"
    using h1 h2 by (simp add: update_book_def)
      (simp add: isbn_and_total_def two_book_state_def dune_def emma_def Let_def)
  have t: "update_book librarian_headers 1 title_and_total two_book_state =
       (Response ''Cannot reduce total copies below currently borrowed copies'' 400 NoPayload,
        two_book_state\<lparr>books_data := [dune\<lparr>title := ''Dune II'', available_copies := 0\<rparr>, emma]\<rparr>)"
    using h1 h2 by (simp add: update_book_def)
      (simp add: title_and_total_def two_book_state_def dune_def emma_def Let_def)
  have f: "find (\<lambda>b. b_id b = 1)
        (books_data (snd (update_book librarian_headers 1 title_and_total two_book_state)))
       = Some (dune\<lparr>title := ''Dune II'', available_copies := 0\<rparr>)"
    unfolding t by (simp add: dune_def)
  have c: "(0::int) < total_copies ?b - available_copies ?b"
    "dune\<lparr>title := ''Dune II'', available_copies := 0\<rparr> \<noteq> ?b"
    "upd_total_copies isbn_and_total = Some 0" "upd_total_copies title_and_total = Some 0"
    by (simp_all add: dune_def isbn_and_total_def title_and_total_def)
  show ?thesis using run_two_book_requests h1 h2 c i t f by simp
qed

end
